theory Spec2Isabelle
  imports Complex_Main
begin

section \<open>JavaScript numbers\<close>

text \<open>
  The script computes with JavaScript numbers. A finite number is modelled by the real it
  denotes; the three special values of IEEE arithmetic are kept, because the script can produce
  them (\<open>0 / 0\<close> is \<open>NaN\<close>, \<open>6 / 0\<close> is \<open>Infinity\<close>). Rounding of finite
  results to 64-bit precision and the sign of zero are not modelled: \<open>Num 0\<close> stands
  for \<open>+0\<close>.
\<close>

datatype jsnum = Num real | PosInf | NegInf | NaN

text \<open>The operator \<open>+\<close> on two numbers.\<close>

fun jadd :: "jsnum \<Rightarrow> jsnum \<Rightarrow> jsnum" where
  "jadd NaN b = NaN"
| "jadd a NaN = NaN"
| "jadd PosInf NegInf = NaN"
| "jadd NegInf PosInf = NaN"
| "jadd PosInf b = PosInf"
| "jadd a PosInf = PosInf"
| "jadd NegInf b = NegInf"
| "jadd a NegInf = NegInf"
| "jadd (Num x) (Num y) = Num (x + y)"

text \<open>The operator \<open>/\<close> on two numbers.\<close>

fun jdiv :: "jsnum \<Rightarrow> jsnum \<Rightarrow> jsnum" where
  "jdiv NaN b = NaN"
| "jdiv a NaN = NaN"
| "jdiv (Num x) (Num y) =
     (if y = 0 then (if x = 0 then NaN else if 0 < x then PosInf else NegInf)
      else Num (x / y))"
| "jdiv (Num x) b = Num 0"
| "jdiv PosInf (Num y) = (if 0 \<le> y then PosInf else NegInf)"
| "jdiv NegInf (Num y) = (if 0 \<le> y then NegInf else PosInf)"
| "jdiv a b = NaN"

text \<open>
  The unary \<open>+\<close> of \<open>+total_duration\<close>, \<open>+total_tokens\<close>, ...: the operand is a
  number in the client library's types, and on a number the conversion is the identity.
\<close>

definition unary_plus :: "jsnum \<Rightarrow> jsnum" where
  "unary_plus x = x"

text \<open>\<open>results.length\<close>, as a number.\<close>

definition length_num :: "'a list \<Rightarrow> jsnum" where
  "length_num xs = Num (real (length xs))"

section \<open>The data model\<close>

text \<open>
  The object returned by \<open>benchmarkOllamaWithLangchain\<close>; \<open>results\<close> in
  \<open>runBenchmark\<close> is an array of these.
\<close>

record TestResult =
  query :: string
  model :: string
  tokensPerSecond :: jsnum
  response :: string
  elapsedTime :: jsnum
  inputTokens :: jsnum
  outputTokens :: jsnum
  totalTokens :: jsnum

text \<open>
  What the chat client hands back: the message content, \<open>response_metadata.total_duration\<close>
  and \<open>usage_metadata\<close>, which the library's type allows to be undefined (\<open>None\<close>).
  The token counts are numbers in the library's type. A \<open>total_duration\<close> that is missing
  is \<open>undefined\<close>, which the unary \<open>+\<close> turns into \<open>NaN\<close>: it is modelled by
  \<open>NaN\<close>.
\<close>

record usage =
  input_tokens :: jsnum
  output_tokens :: jsnum
  total_tokens :: jsnum

record message =
  content :: string
  total_duration :: jsnum
  usage_metadata :: "usage option"

text \<open>One call of the client: the prompt template, the model and the server address.\<close>

record request =
  req_input :: string
  req_model :: string
  req_baseUrl :: string

text \<open>
  The ways a run can end early: the client's \<open>invoke\<close> rejects (server unreachable,
  template rejected, ...), a property is read on \<open>undefined\<close> (the argument names the
  undefined expression), or \<open>writeFile\<close> rejects.
\<close>

datatype error = ClientFailure | TypeError string | WriteFailure

section \<open>The report\<close>

text \<open>
  The values of lines 95 to 104. The summary's \<open>totalTokens\<close> is named
  \<open>totalTokens_summary\<close> here, the name being taken by the field of \<open>TestResult\<close>.
\<close>

record stats =
  totalTime :: jsnum
  totalInputTokens :: jsnum
  totalOutputTokens :: jsnum
  totalTokens_summary :: jsnum
  averageTime :: jsnum
  averageInputTokens :: jsnum
  averageOutputTokens :: jsnum
  averageTotalTokens :: jsnum
  averageTokensPerSecond :: jsnum

text \<open>
  A template literal is kept as the values it interpolates, in the order of the template: the
  fixed text around them and the printing of numbers (\<open>toFixed(2)\<close>, number to string) are
  not modelled. \<open>SummaryText\<close> is \<open>summaryTemplate\<close>: the model of the first result,
  \<open>results.length\<close>, the totals and averages, and the numbered prompts. \<open>TestText\<close>
  is \<open>template\<close> of the second loop: the number \<open>i + 1\<close> and the result.
\<close>

datatype report_text =
  SummaryText string nat stats "(nat \<times> string) list"
| TestText nat TestResult

section \<open>The environment\<close>

text \<open>
  The UTC fields of a \<open>Date\<close>, as \<open>toISOString\<close> reads them.
\<close>

record date =
  year :: int
  month :: nat
  day :: nat
  hours :: nat
  minutes :: nat
  seconds :: nat
  milliseconds :: nat

text \<open>
  Everything outside the script: \<open>invoke\<close> is lines 32 to 35, the client library
  (building the client and the prompt template from the input, then
  \<open>promp.pipe(llm).invoke({})\<close>) together with the server, a transition on a state
  \<open>'s\<close> of its own that answers a request with a message or rejects; \<open>writable\<close> says
  whether an append to a path succeeds, given the files as they are; \<open>now\<close> is what
  \<open>new Date()\<close> returns when the run starts.
\<close>

record 's env =
  invoke :: "'s \<Rightarrow> request \<Rightarrow> (error + message) \<times> 's"
  writable :: "(string \<Rightarrow> report_text list) \<Rightarrow> string \<Rightarrow> bool"
  now :: date

text \<open>
  The state a run changes: the state behind \<open>invoke\<close>, the file system (each path with the
  texts appended to it, in order), and the trace of the calls of \<open>invoke\<close> made so far, each
  with its outcome. The trace is written by the model only, to state in which order calls are
  made.
\<close>

record 's world =
  server :: 's
  files :: "string \<Rightarrow> report_text list"
  trace :: "(request \<times> (error + message)) list"

section \<open>benchmarkOllamaWithLangchain\<close>

text \<open>
  Lines 37 to 56: the result built from the message. Destructuring an undefined
  \<open>usage_metadata\<close> throws a TypeError.
\<close>

definition make_result :: "string \<Rightarrow> string \<Rightarrow> message \<Rightarrow> error + TestResult" where
  "make_result input mdl msg =
     (case usage_metadata msg of
        None \<Rightarrow> Inl (TypeError ''usage_metadata'')
      | Some u \<Rightarrow>
          (let totalDurationSeconds = jdiv (unary_plus (total_duration msg)) (Num 1000000000);
               tokensPerSecond = jdiv (unary_plus (total_tokens u)) totalDurationSeconds;
               elapsedTime = totalDurationSeconds;
               inputTokens = unary_plus (input_tokens u);
               outputTokens = unary_plus (output_tokens u);
               totalTokens = unary_plus (total_tokens u)
           in Inr \<lparr> query = input, model = mdl, tokensPerSecond = tokensPerSecond,
                     response = content msg, elapsedTime = elapsedTime,
                     inputTokens = inputTokens, outputTokens = outputTokens,
                     totalTokens = totalTokens \<rparr>))"

definition benchmarkOllamaWithLangchain ::
  "'s env \<Rightarrow> string \<Rightarrow> string \<Rightarrow> string \<Rightarrow> 's world \<Rightarrow> (error + TestResult) \<times> 's world" where
  "benchmarkOllamaWithLangchain e input mdl baseUrl w =
     (let rq = \<lparr> req_input = input, req_model = mdl, req_baseUrl = baseUrl \<rparr>;
          (outcome, s') = invoke e (server w) rq;
          w' = w \<lparr> server := s', trace := trace w @ [(rq, outcome)] \<rparr>
      in case outcome of
           Inl err \<Rightarrow> (Inl err, w')
         | Inr msg \<Rightarrow> (make_result input mdl msg, w'))"

section \<open>runBenchmark\<close>

subsection \<open>The name of the report\<close>

text \<open>
  \<open>Date.prototype.toISOString\<close>: \<open>YYYY-MM-DDTHH:mm:ss.sssZ\<close>, each field in decimal
  digits padded with zeros to its width; a year outside 0 to 9999 is written with a sign and
  six digits.
\<close>

definition digit :: "nat \<Rightarrow> char" where
  "digit d =
     (if d = 0 then CHR ''0'' else if d = 1 then CHR ''1'' else if d = 2 then CHR ''2''
      else if d = 3 then CHR ''3'' else if d = 4 then CHR ''4'' else if d = 5 then CHR ''5''
      else if d = 6 then CHR ''6'' else if d = 7 then CHR ''7'' else if d = 8 then CHR ''8''
      else CHR ''9'')"

fun pad :: "nat \<Rightarrow> nat \<Rightarrow> string" where
  "pad 0 n = []"
| "pad (Suc k) n = pad k (n div 10) @ [digit (n mod 10)]"

definition year_string :: "int \<Rightarrow> string" where
  "year_string y =
     (if 0 \<le> y \<and> y \<le> 9999 then pad 4 (nat y)
      else (if y < 0 then ''-'' else ''+'') @ pad 6 (nat \<bar>y\<bar>))"

definition toISOString :: "date \<Rightarrow> string" where
  "toISOString d =
     year_string (year d) @ ''-'' @ pad 2 (month d) @ ''-'' @ pad 2 (day d) @ ''T'' @
     pad 2 (hours d) @ '':'' @ pad 2 (minutes d) @ '':'' @ pad 2 (seconds d) @ ''.'' @
     pad 3 (milliseconds d) @ ''Z''"

text \<open>\<open>s.replace(/c/g, r)\<close> for a single character \<open>c\<close>: every occurrence is replaced.\<close>

definition replace_all :: "char \<Rightarrow> char \<Rightarrow> string \<Rightarrow> string" where
  "replace_all c r s = map (\<lambda>x. if x = c then r else x) s"

text \<open>Line 60.\<close>

definition benchmarkDateTime :: "date \<Rightarrow> string" where
  "benchmarkDateTime d =
     replace_all CHR ''.'' CHR ''-'' (replace_all CHR '':'' CHR ''-'' (toISOString d))"

text \<open>The path of lines 128 and 152.\<close>

definition report_path :: "date \<Rightarrow> string" where
  "report_path d = ''./results/benchmark-'' @ benchmarkDateTime d @ ''.md''"

subsection \<open>The measured calls\<close>

text \<open>
  The loop of lines 79 to 84, with \<open>results\<close> as an accumulator: each call is awaited, so
  the next one starts in the world the previous one left; a call that throws ends the loop
  and the run.
\<close>

fun run_tests ::
  "'s env \<Rightarrow> string list \<Rightarrow> string \<Rightarrow> string \<Rightarrow> TestResult list \<Rightarrow> 's world
     \<Rightarrow> (error + TestResult list) \<times> 's world" where
  "run_tests e [] mdl baseUrl results w = (Inr results, w)"
| "run_tests e (test # rest) mdl baseUrl results w =
     (case benchmarkOllamaWithLangchain e test mdl baseUrl w of
        (Inl err, w') \<Rightarrow> (Inl err, w')
      | (Inr result, w') \<Rightarrow> run_tests e rest mdl baseUrl (results @ [result]) w')"

subsection \<open>The summary\<close>

text \<open>
  Lines 95 to 104. \<open>xs.reduce(f, 0)\<close> is a fold from the left that starts at 0.
\<close>

definition summary_stats :: "TestResult list \<Rightarrow> stats" where
  "summary_stats results =
     (let totalTime = foldl (\<lambda>acc r. jadd acc (elapsedTime r)) (Num 0) results;
          totalInputTokens = foldl (\<lambda>acc r. jadd acc (inputTokens r)) (Num 0) results;
          totalOutputTokens = foldl (\<lambda>acc r. jadd acc (outputTokens r)) (Num 0) results;
          totalTokens = foldl (\<lambda>acc r. jadd acc (totalTokens r)) (Num 0) results;
          averageTime = jdiv totalTime (length_num results);
          averageInputTokens = jdiv totalInputTokens (length_num results);
          averageOutputTokens = jdiv totalOutputTokens (length_num results);
          averageTotalTokens = jdiv totalTokens (length_num results);
          averageTokensPerSecond =
            jdiv (foldl (\<lambda>acc r. jadd acc (tokensPerSecond r)) (Num 0) results)
              (length_num results)
      in \<lparr> totalTime = totalTime, totalInputTokens = totalInputTokens,
           totalOutputTokens = totalOutputTokens, totalTokens_summary = totalTokens,
           averageTime = averageTime, averageInputTokens = averageInputTokens,
           averageOutputTokens = averageOutputTokens, averageTotalTokens = averageTotalTokens,
           averageTokensPerSecond = averageTokensPerSecond \<rparr>)"

text \<open>
  Lines 106 to 126. \<open>results[0]\<close> of an empty array is \<open>undefined\<close>, and reading
  \<open>.model\<close> on it throws a TypeError.
\<close>

definition summaryTemplate :: "string list \<Rightarrow> TestResult list \<Rightarrow> stats \<Rightarrow> error + report_text" where
  "summaryTemplate tests results st =
     (case results of
        [] \<Rightarrow> Inl (TypeError ''results[0]'')
      | r0 # _ \<Rightarrow> Inr (SummaryText (model r0) (length results) st (enumerate 1 tests)))"

subsection \<open>Writing\<close>

text \<open>
  \<open>writeFile(path, text, { flag: 'a' })\<close>: the text is appended to the file, or the call
  rejects and the file is as it was.
\<close>

definition writeFile :: "'s env \<Rightarrow> string \<Rightarrow> report_text \<Rightarrow> 's world \<Rightarrow> (error + unit) \<times> 's world" where
  "writeFile e path txt w =
     (if writable e (files w) path
      then (Inr (), w \<lparr> files := (files w)(path := files w path @ [txt]) \<rparr>)
      else (Inl WriteFailure, w))"

text \<open>The loop of lines 133 to 153; \<open>i\<close> is the index of the first result left.\<close>

fun write_tests ::
  "'s env \<Rightarrow> string \<Rightarrow> nat \<Rightarrow> TestResult list \<Rightarrow> 's world \<Rightarrow> (error + unit) \<times> 's world" where
  "write_tests e path i [] w = (Inr (), w)"
| "write_tests e path i (result # rest) w =
     (case writeFile e path (TestText (i + 1) result) w of
        (Inl err, w') \<Rightarrow> (Inl err, w')
      | (Inr u, w') \<Rightarrow> write_tests e path (i + 1) rest w')"

subsection \<open>The run\<close>

text \<open>
  \<open>runBenchmark\<close>, lines 59 to 157, without its console output. The promise it returns
  is fulfilled (\<open>Inr ()\<close>) or rejected with the first error thrown.
\<close>

definition runBenchmark ::
  "'s env \<Rightarrow> string list \<Rightarrow> string \<Rightarrow> string \<Rightarrow> 's world \<Rightarrow> (error + unit) \<times> 's world" where
  "runBenchmark e tests mdl baseUrl w =
     (case benchmarkOllamaWithLangchain e ''Hello'' mdl baseUrl w of
        (Inl err, w1) \<Rightarrow> (Inl err, w1)
      | (Inr warm, w1) \<Rightarrow>
          (case run_tests e tests mdl baseUrl [] w1 of
             (Inl err, w2) \<Rightarrow> (Inl err, w2)
           | (Inr results, w2) \<Rightarrow>
               (case summaryTemplate tests results (summary_stats results) of
                  Inl err \<Rightarrow> (Inl err, w2)
                | Inr summary \<Rightarrow>
                    (case writeFile e (report_path (now e)) summary w2 of
                       (Inl err, w3) \<Rightarrow> (Inl err, w3)
                     | (Inr u, w3) \<Rightarrow> write_tests e (report_path (now e)) 0 results w3))))"

section \<open>Notions of the specification\<close>

text \<open>
  The sum of a list of numbers, as arithmetic defines it and in no particular order of
  addition: \<open>NaN\<close> when a summand is \<open>NaN\<close> or both infinities occur, an infinity when
  only that one occurs, and the sum of the reals otherwise.
\<close>

fun finite_part :: "jsnum \<Rightarrow> real" where
  "finite_part (Num x) = x"
| "finite_part a = 0"

definition sum_of :: "jsnum list \<Rightarrow> jsnum" where
  "sum_of xs =
     (if NaN \<in> set xs \<or> (PosInf \<in> set xs \<and> NegInf \<in> set xs) then NaN
      else if PosInf \<in> set xs then PosInf
      else if NegInf \<in> set xs then NegInf
      else Num (sum_list (map finite_part xs)))"

text \<open>The arithmetic mean: the sum divided by the number of summands.\<close>

definition mean_of :: "jsnum list \<Rightarrow> jsnum" where
  "mean_of xs = jdiv (sum_of xs) (Num (real (length xs)))"

text \<open>
  A string has a form when it has the form's length and agrees with it character by
  character, where \<open>d\<close> in the form stands for any decimal digit.
\<close>

definition is_digit :: "char \<Rightarrow> bool" where
  "is_digit c = (c \<in> set ''0123456789'')"

fun has_form :: "string \<Rightarrow> string \<Rightarrow> bool" where
  "has_form [] [] = True"
| "has_form (p # ps) (c # cs) = ((if p = CHR ''d'' then is_digit c else c = p) \<and> has_form ps cs)"
| "has_form ps cs = False"

text \<open>A date whose fields are in the ranges of the calendar and the clock.\<close>

definition valid_date :: "date \<Rightarrow> bool" where
  "valid_date d =
     (1 \<le> month d \<and> month d \<le> 12 \<and> 1 \<le> day d \<and> day d \<le> 31 \<and> hours d < 24 \<and>
      minutes d < 60 \<and> seconds d < 60 \<and> milliseconds d < 1000)"

text \<open>
  Serving a list of requests one after the other, each from the state the one before left:
  the outcomes and the last state.
\<close>

fun serve_all :: "'s env \<Rightarrow> 's \<Rightarrow> request list \<Rightarrow> (error + message) list \<times> 's" where
  "serve_all e s [] = ([], s)"
| "serve_all e s (rq # rqs) =
     (let (outcome, s') = invoke e s rq; (outcomes, s'') = serve_all e s' rqs
      in (outcome # outcomes, s''))"

text \<open>The request of a test prompt.\<close>

definition request_of :: "string \<Rightarrow> string \<Rightarrow> string \<Rightarrow> request" where
  "request_of mdl baseUrl input = \<lparr> req_input = input, req_model = mdl, req_baseUrl = baseUrl \<rparr>"

text \<open>The texts of the second loop for a list of results: numbered from 1, in order.\<close>

definition test_texts :: "TestResult list \<Rightarrow> report_text list" where
  "test_texts results = map (\<lambda>(i, r). TestText i r) (enumerate 1 results)"

text \<open>
  What a call of the trace gave the script: the error of a rejected call, and for an answered
  call the result (or the TypeError) of lines 37 to 56.
\<close>

fun call_result :: "request \<times> (error + message) \<Rightarrow> error + TestResult" where
  "call_result (rq, Inl err) = Inl err"
| "call_result (rq, Inr msg) = make_result (req_input rq) (req_model rq) msg"

text \<open>The texts of a complete report, in the order they are appended.\<close>

definition report_texts :: "string \<Rightarrow> string list \<Rightarrow> TestResult list \<Rightarrow> report_text list" where
  "report_texts mdl tests results =
     SummaryText mdl (length results) (summary_stats results) (enumerate 1 tests) #
     test_texts results"

section \<open>An example environment\<close>

text \<open>
  A server that counts the calls it has answered: it rejects call number \<open>fail_at\<close> and
  answers every other call with \<open>4\<close>, 5 input tokens, 1 output token and 6 tokens in total,
  in 2 seconds, but call number 2 in 4 seconds. An append succeeds while the file holds less
  than \<open>capacity\<close> texts. The run starts on 2 January 2024 at 03:04:05.006 UTC.
\<close>

definition test_usage :: usage where
  "test_usage = \<lparr> input_tokens = Num 5, output_tokens = Num 1, total_tokens = Num 6 \<rparr>"

definition test_message :: "nat \<Rightarrow> message" where
  "test_message s =
     \<lparr> content = ''4'', total_duration = Num (if s = 2 then 4000000000 else 2000000000),
       usage_metadata = Some test_usage \<rparr>"

definition test_date :: date where
  "test_date = \<lparr> year = 2024, month = 1, day = 2, hours = 3, minutes = 4, seconds = 5,
                 milliseconds = 6 \<rparr>"

definition test_env :: "nat \<Rightarrow> nat \<Rightarrow> nat env" where
  "test_env fail_at capacity =
     \<lparr> invoke = (\<lambda>s rq. (if s = fail_at then Inl ClientFailure else Inr (test_message s), Suc s)),
       writable = (\<lambda>fs path. length (fs path) < capacity),
       now = test_date \<rparr>"

definition test_world :: "nat world" where
  "test_world = \<lparr> server = 0, files = (\<lambda>path. []), trace = [] \<rparr>"

section \<open>Arithmetic of the summary\<close>

lemma jadd_zero_left: "jadd (Num 0) a = a"
  by (cases a) simp_all

lemma jadd_assoc: "jadd (jadd a b) c = jadd a (jadd b c)"
  by (cases a; cases b; cases c) simp_all

lemma sum_of_Nil: "sum_of [] = Num 0"
  by (simp add: sum_of_def)

lemma sum_of_Cons: "sum_of (a # xs) = jadd a (sum_of xs)"
  by (cases a) (auto simp: sum_of_def)

lemma foldl_jadd: "foldl (\<lambda>acc r. jadd acc (f r)) a rs = jadd a (sum_of (map f rs))"
proof (induction rs arbitrary: a)
  case Nil
  show ?case by (cases a) (simp_all add: sum_of_Nil)
next
  case (Cons r rs)
  show ?case by (simp add: Cons.IH sum_of_Cons jadd_assoc)
qed

lemma reduce_is_sum: "foldl (\<lambda>acc r. jadd acc (f r)) (Num 0) rs = sum_of (map f rs)"
  by (simp add: foldl_jadd jadd_zero_left)

section \<open>The calls and the writes of a run\<close>

lemma prober_call:
  assumes "benchmarkOllamaWithLangchain e input mdl baseUrl w = (out, w')"
  shows "files w' = files w \<and>
         (\<exists>c. trace w' = trace w @ [c] \<and> fst c = request_of mdl baseUrl input \<and>
              call_result c = out \<and> invoke e (server w) (fst c) = (snd c, server w'))"
  using assms
  by (auto simp: benchmarkOllamaWithLangchain_def request_of_def Let_def
           split: prod.splits sum.splits)

lemma make_result_query: "make_result input mdl msg = Inr r \<Longrightarrow> query r = input \<and> model r = mdl"
  by (auto simp: make_result_def Let_def split: option.splits)


lemma run_tests_cases:
  assumes "run_tests e tests mdl baseUrl acc w = (out, w')"
  shows "files w' = files w \<and>
         (\<exists>calls. trace w' = trace w @ calls \<and> length calls \<le> length tests \<and>
            map fst calls = map (request_of mdl baseUrl) (take (length calls) tests) \<and>
            serve_all e (server w) (map fst calls) = (map snd calls, server w') \<and>
            (case out of
               Inr rs \<Rightarrow> length calls = length tests \<and>
                         (\<exists>new. rs = acc @ new \<and> map call_result calls = map Inr new)
             | Inl err \<Rightarrow> calls \<noteq> [] \<and> call_result (last calls) = Inl err))"
  using assms
proof (induction tests arbitrary: acc w)
  case Nil
  then show ?case by (cases out) auto
next
  case (Cons test rest)
  obtain o1 w1 where p: "benchmarkOllamaWithLangchain e test mdl baseUrl w = (o1, w1)"
    by (cases "benchmarkOllamaWithLangchain e test mdl baseUrl w") auto
  from prober_call [OF p] obtain c where
    f1: "files w1 = files w" and t1: "trace w1 = trace w @ [c]" and
    c1: "fst c = request_of mdl baseUrl test" and r1: "call_result c = o1" and
    i1: "invoke e (server w) (fst c) = (snd c, server w1)"
    by blast
  show ?case
  proof (cases o1)
    case (Inl err)
    with Cons.prems p have out: "out = Inl err" and w': "w' = w1" by auto
    have ff: "files w' = files w" using f1 w' by simp
    have a: "trace w' = trace w @ [c]" using t1 w' by simp
    have b: "length [c] \<le> length (test # rest)" by simp
    have c: "map fst [c] = map (request_of mdl baseUrl) (take (length [c]) (test # rest))"
      using c1 by simp
    have d: "serve_all e (server w) (map fst [c]) = (map snd [c], server w')"
      using i1 w' by simp
    have e: "(case out of
               Inr rs \<Rightarrow> length [c] = length (test # rest) \<and>
                         (\<exists>new. rs = acc @ new \<and> map call_result [c] = map Inr new)
             | Inl err \<Rightarrow> [c] \<noteq> [] \<and> call_result (last [c]) = Inl err)"
      using out r1 Inl by simp
    show ?thesis
      apply (intro conjI exI [of _ "[c]"])
      apply (fact ff) apply (fact a) apply (fact b) apply (fact c) apply (fact d) apply (fact e)
      done
  next
    case (Inr result)
    with Cons.prems p have rec: "run_tests e rest mdl baseUrl (acc @ [result]) w1 = (out, w')"
      by simp
    from Cons.IH [OF rec] obtain calls where
      f2: "files w' = files w1" and t2: "trace w' = trace w1 @ calls" and
      l2: "length calls \<le> length rest" and
      m2: "map fst calls = map (request_of mdl baseUrl) (take (length calls) rest)" and
      s2: "serve_all e (server w1) (map fst calls) = (map snd calls, server w')" and
      o2: "(case out of
               Inr rs \<Rightarrow> length calls = length rest \<and>
                         (\<exists>new. rs = (acc @ [result]) @ new \<and> map call_result calls = map Inr new)
             | Inl err \<Rightarrow> calls \<noteq> [] \<and> call_result (last calls) = Inl err)"
      by blast
    have a: "trace w' = trace w @ (c # calls)" using t1 t2 by simp
    have b: "length (c # calls) \<le> length (test # rest)" using l2 by simp
    have c: "map fst (c # calls) =
             map (request_of mdl baseUrl) (take (length (c # calls)) (test # rest))"
      using c1 m2 by simp
    have d: "serve_all e (server w) (map fst (c # calls)) = (map snd (c # calls), server w')"
      using i1 s2 by simp
    have e: "(case out of
               Inr rs \<Rightarrow> length (c # calls) = length (test # rest) \<and>
                         (\<exists>new. rs = acc @ new \<and> map call_result (c # calls) = map Inr new)
             | Inl err \<Rightarrow> c # calls \<noteq> [] \<and> call_result (last (c # calls)) = Inl err)"
    proof (cases out)
      case (Inl err)
      with o2 show ?thesis by simp
    next
      case (Inr rs)
      with o2 obtain new where "length calls = length rest" "rs = (acc @ [result]) @ new"
        "map call_result calls = map Inr new" by auto
      then have "rs = acc @ (result # new) \<and>
                 map call_result (c # calls) = map Inr (result # new)"
        using r1 \<open>o1 = Inr result\<close> by simp
      then show ?thesis using Inr \<open>length calls = length rest\<close> by simp
    qed
    have ff: "files w' = files w" using f1 f2 by simp
    show ?thesis
      apply (intro conjI exI [of _ "c # calls"])
      apply (fact ff) apply (fact a) apply (fact b) apply (fact c) apply (fact d) apply (fact e)
      done
  qed
qed

lemma writeFile_cases:
  assumes "writeFile e path txt w = (out, w')"
  shows "trace w' = trace w \<and> server w' = server w \<and>
         ((out = Inr () \<and> files w' = (files w)(path := files w path @ [txt])) \<or>
          (out = Inl WriteFailure \<and> files w' = files w))"
  using assms by (auto simp: writeFile_def split: if_splits)

lemma write_tests_cases:
  assumes "write_tests e path i rs w = (out, w')"
  shows "trace w' = trace w \<and> server w' = server w \<and>
         (\<exists>k. k \<le> length rs \<and>
              files w' = (files w)(path := files w path @
                  map (\<lambda>(j, r). TestText j r) (enumerate (i + 1) (take k rs))) \<and>
              ((out = Inr () \<and> k = length rs) \<or> (out = Inl WriteFailure \<and> k < length rs)))"
  using assms
proof (induction rs arbitrary: i w)
  case Nil
  then show ?case by auto
next
  case (Cons r rs)
  obtain o1 w1 where p: "writeFile e path (TestText (i + 1) r) w = (o1, w1)"
    by (cases "writeFile e path (TestText (i + 1) r) w") auto
  from writeFile_cases [OF p] have t1: "trace w1 = trace w" and s1: "server w1 = server w" and
    d1: "(o1 = Inr () \<and> files w1 = (files w)(path := files w path @ [TestText (i + 1) r])) \<or>
         (o1 = Inl WriteFailure \<and> files w1 = files w)"
    by simp_all
  from d1 show ?case
  proof
    assume ok: "o1 = Inr () \<and> files w1 = (files w)(path := files w path @ [TestText (i + 1) r])"
    with Cons.prems p have rec: "write_tests e path (i + 1) rs w1 = (out, w')" by simp
    from Cons.IH [OF rec] obtain k where
      t2: "trace w' = trace w1" and s2: "server w' = server w1" and k: "k \<le> length rs" and
      f2: "files w' = (files w1)(path := files w1 path @
                  map (\<lambda>(j, r). TestText j r) (enumerate (i + 1 + 1) (take k rs)))" and
      o2: "(out = Inr () \<and> k = length rs) \<or> (out = Inl WriteFailure \<and> k < length rs)"
      by blast
    have "files w' = (files w)(path := files w path @
                  map (\<lambda>(j, r). TestText j r) (enumerate (i + 1) (take (Suc k) (r # rs))))"
      using f2 ok by simp
    moreover have "Suc k \<le> length (r # rs)" using k by simp
    moreover have "(out = Inr () \<and> Suc k = length (r # rs)) \<or>
                   (out = Inl WriteFailure \<and> Suc k < length (r # rs))"
      using o2 by auto
    ultimately show ?thesis using t1 t2 s1 s2 by (intro conjI exI [of _ "Suc k"]) simp_all
  next
    assume bad: "o1 = Inl WriteFailure \<and> files w1 = files w"
    with Cons.prems p have "out = Inl WriteFailure" "w' = w1" by auto
    then show ?thesis using bad t1 s1 by (intro conjI exI [of _ 0]) simp_all
  qed
qed


lemma take_enumerate: "enumerate n (take k xs) = take k (enumerate n xs)"
proof (induction xs arbitrary: n k)
  case Nil
  show ?case by simp
next
  case (Cons x xs)
  show ?case by (cases k) (simp_all add: Cons.IH)
qed

lemma take_test_texts:
  "map (\<lambda>(j, r). TestText j r) (enumerate (Suc 0) (take k rs)) = take k (test_texts rs)"
  by (simp add: test_texts_def take_enumerate take_map)

lemma results_of_calls:
  assumes "map fst calls = map (request_of mdl baseUrl) tests"
    and "map call_result calls = map Inr results"
  shows "map query results = tests \<and> (\<forall>r \<in> set results. model r = mdl)"
  using assms
proof (induction calls arbitrary: tests results)
  case Nil
  then show ?case by simp
next
  case (Cons c calls)
  from Cons.prems obtain t ts where tests: "tests = t # ts" by (cases tests) auto
  from Cons.prems obtain r rs where results: "results = r # rs" by (cases results) auto
  obtain rq oc where c: "c = (rq, oc)" by (cases c)
  from Cons.prems tests c have rq: "rq = request_of mdl baseUrl t" by simp
  from Cons.prems results c have "call_result (rq, oc) = Inr r" by simp
  then obtain msg where "oc = Inr msg" "make_result (req_input rq) (req_model rq) msg = Inr r"
    by (cases oc) auto
  then have "query r = t \<and> model r = mdl"
    using make_result_query [of "req_input rq" "req_model rq" msg r] rq
    by (simp add: request_of_def)
  moreover have "map query rs = ts \<and> (\<forall>r \<in> set rs. model r = mdl)"
    using Cons.IH [of ts rs] Cons.prems tests results by simp
  ultimately show ?case using tests results by simp
qed

lemma run_cases:
  assumes "runBenchmark e tests mdl baseUrl w = (out, w')"
  shows "\<exists>warm calls.
     trace w' = trace w @ warm # calls \<and> fst warm = request_of mdl baseUrl ''Hello'' \<and>
     length calls \<le> length tests \<and>
     map fst calls = map (request_of mdl baseUrl) (take (length calls) tests) \<and>
     serve_all e (server w) (map fst (warm # calls)) = (map snd (warm # calls), server w') \<and>
     ((\<exists>err. call_result (last (warm # calls)) = Inl err \<and> out = Inl err \<and> files w' = files w) \<or>
      (\<exists>r0 results. call_result warm = Inr r0 \<and> length calls = length tests \<and>
          map call_result calls = map Inr results \<and>
          (if results = [] then out = Inl (TypeError ''results[0]'') \<and> files w' = files w
           else \<exists>j. files w' = (files w)(report_path (now e) :=
                         files w (report_path (now e)) @ take j (report_texts mdl tests results)) \<and>
                    ((out = Inr () \<and> j = Suc (length results)) \<or>
                     (out = Inl WriteFailure \<and> j \<le> length results)))))"
proof -
  let ?path = "report_path (now e)"
  obtain o1 w1 where p: "benchmarkOllamaWithLangchain e ''Hello'' mdl baseUrl w = (o1, w1)"
    by (cases "benchmarkOllamaWithLangchain e ''Hello'' mdl baseUrl w") auto
  from prober_call [OF p] obtain warm where
    f1: "files w1 = files w" and t1: "trace w1 = trace w @ [warm]" and
    c1: "fst warm = request_of mdl baseUrl ''Hello''" and r1: "call_result warm = o1" and
    i1: "invoke e (server w) (fst warm) = (snd warm, server w1)"
    by blast
  show ?thesis
  proof (cases o1)
    case (Inl err)
    with assms p have out: "out = Inl err" and w': "w' = w1"
      by (auto simp: runBenchmark_def)
    have a: "trace w' = trace w @ warm # []" using t1 w' by simp
    have b: "length ([] :: (request \<times> (error + message)) list) \<le> length tests" by simp
    have c: "map fst ([] :: (request \<times> (error + message)) list) =
             map (request_of mdl baseUrl) (take (length ([] :: (request \<times> (error + message)) list)) tests)"
      by simp
    have d: "serve_all e (server w) (map fst (warm # [])) = (map snd (warm # []), server w')"
      using i1 w' by simp
    have e: "\<exists>err. call_result (last (warm # [])) = Inl err \<and> out = Inl err \<and> files w' = files w"
      using r1 Inl out f1 w' by simp
    show ?thesis
      apply (intro exI [of _ warm] exI [of _ "[]"] conjI)
      apply (fact a) apply (fact c1) apply (fact b) apply (fact c) apply (fact d)
      apply (rule disjI1) apply (fact e)
      done
  next
    case (Inr r0)
    obtain o2 w2 where q: "run_tests e tests mdl baseUrl [] w1 = (o2, w2)"
      by (cases "run_tests e tests mdl baseUrl [] w1") auto
    from run_tests_cases [OF q] obtain calls where
      f2: "files w2 = files w1" and t2: "trace w2 = trace w1 @ calls" and
      l2: "length calls \<le> length tests" and
      m2: "map fst calls = map (request_of mdl baseUrl) (take (length calls) tests)" and
      s2: "serve_all e (server w1) (map fst calls) = (map snd calls, server w2)" and
      o2: "(case o2 of
               Inr rs \<Rightarrow> length calls = length tests \<and>
                         (\<exists>new. rs = [] @ new \<and> map call_result calls = map Inr new)
             | Inl err \<Rightarrow> calls \<noteq> [] \<and> call_result (last calls) = Inl err)"
      by blast
    have sv: "serve_all e (server w) (map fst (warm # calls)) = (map snd (warm # calls), server w2)"
      using i1 s2 by simp
    have tr: "trace w2 = trace w @ warm # calls" using t1 t2 by simp
    show ?thesis
    proof (cases o2)
      case (Inl err)
      with assms p q \<open>o1 = Inr r0\<close> have out: "out = Inl err" and w': "w' = w2"
        by (auto simp: runBenchmark_def)
      from o2 Inl have "calls \<noteq> []" "call_result (last calls) = Inl err" by simp_all
      then have e: "\<exists>err. call_result (last (warm # calls)) = Inl err \<and> out = Inl err \<and>
                      files w' = files w"
        using out w' f1 f2 by simp
      show ?thesis
        apply (intro exI [of _ warm] exI [of _ calls] conjI)
        apply (simp add: tr w') apply (fact c1) apply (fact l2) apply (fact m2)
        apply (simp only: w' sv)
        apply (rule disjI1) apply (fact e)
        done
    next
      case (Inr results)
      with o2 have lc: "length calls = length tests" and
        cr: "map call_result calls = map Inr results" by simp_all
      have rest: "(if results = [] then out = Inl (TypeError ''results[0]'') \<and> files w' = files w \<and> trace w' = trace w2 \<and> server w' = server w2
           else (\<exists>j. files w' = (files w)(?path :=
                         files w ?path @ take j (report_texts mdl tests results)) \<and>
                    ((out = Inr () \<and> j = Suc (length results)) \<or>
                     (out = Inl WriteFailure \<and> j \<le> length results))) \<and> trace w' = trace w2 \<and> server w' = server w2)"
      proof (cases results)
        case Nil
        with assms p q \<open>o1 = Inr r0\<close> \<open>o2 = Inr results\<close> show ?thesis
          using f1 f2 by (auto simp: runBenchmark_def summaryTemplate_def)
      next
        case (Cons r rs)
        have "tests = take (length calls) tests" using lc by simp
        with m2 have m2': "map fst calls = map (request_of mdl baseUrl) tests" by simp
        from results_of_calls [OF m2' cr] Cons have mr: "model r = mdl" by simp
        let ?summary = "SummaryText mdl (length results) (summary_stats results) (enumerate 1 tests)"
        have st: "summaryTemplate tests results (summary_stats results) = Inr ?summary"
          using Cons mr by (simp add: summaryTemplate_def)
        obtain o3 w3 where wf: "writeFile e ?path ?summary w2 = (o3, w3)"
          by (cases "writeFile e ?path ?summary w2") auto
        from writeFile_cases [OF wf] have t3: "trace w3 = trace w2" and s3: "server w3 = server w2"
          and d3: "(o3 = Inr () \<and> files w3 = (files w2)(?path := files w2 ?path @ [?summary])) \<or>
                   (o3 = Inl WriteFailure \<and> files w3 = files w2)"
          by simp_all
        from d3 show ?thesis
        proof
          assume bad: "o3 = Inl WriteFailure \<and> files w3 = files w2"
          with assms p q \<open>o1 = Inr r0\<close> \<open>o2 = Inr results\<close> st wf
          have ow: "out = Inl WriteFailure" "w' = w3" by (auto simp: runBenchmark_def)
          have "files w' = (files w)(?path := files w ?path @ take 0 (report_texts mdl tests results)) \<and>
                ((out = Inr () \<and> 0 = Suc (length results)) \<or>
                 (out = Inl WriteFailure \<and> 0 \<le> length results))"
            using bad f1 f2 ow by simp
          then have "\<exists>j. files w' = (files w)(?path := files w ?path @ take j (report_texts mdl tests results)) \<and>
                ((out = Inr () \<and> j = Suc (length results)) \<or>
                 (out = Inl WriteFailure \<and> j \<le> length results))"
            by (rule exI)
          then show ?thesis using Cons t3 s3 ow by simp
        next
          assume ok: "o3 = Inr () \<and> files w3 = (files w2)(?path := files w2 ?path @ [?summary])"
          with assms p q \<open>o1 = Inr r0\<close> \<open>o2 = Inr results\<close> st wf
          have wt: "write_tests e ?path 0 results w3 = (out, w')" by (auto simp: runBenchmark_def)
          from write_tests_cases [OF wt] obtain k where
            t4: "trace w' = trace w3" and s4: "server w' = server w3" and k: "k \<le> length results" and
            f4: "files w' = (files w3)(?path := files w3 ?path @
                  map (\<lambda>(j, r). TestText j r) (enumerate (0 + 1) (take k results)))" and
            o4: "(out = Inr () \<and> k = length results) \<or> (out = Inl WriteFailure \<and> k < length results)"
            by blast
          have "files w' = (files w)(?path :=
                         files w ?path @ take (Suc k) (report_texts mdl tests results))"
            using f4 ok f1 f2 by (simp add: take_test_texts report_texts_def)
          moreover have "(out = Inr () \<and> Suc k = Suc (length results)) \<or>
                     (out = Inl WriteFailure \<and> Suc k \<le> length results)"
            using o4 by auto
          ultimately have "files w' = (files w)(?path :=
                         files w ?path @ take (Suc k) (report_texts mdl tests results)) \<and>
                ((out = Inr () \<and> Suc k = Suc (length results)) \<or>
                 (out = Inl WriteFailure \<and> Suc k \<le> length results))"
            by (rule conjI)
          then have "\<exists>j. files w' = (files w)(?path := files w ?path @ take j (report_texts mdl tests results)) \<and>
                ((out = Inr () \<and> j = Suc (length results)) \<or>
                 (out = Inl WriteFailure \<and> j \<le> length results))"
            by (rule exI)
          then show ?thesis using Cons t3 s3 t4 s4 by simp
        qed
      qed
      then have tw: "trace w' = trace w2" and sw: "server w' = server w2"
        by (auto split: if_splits)
      from rest have e: "(if results = [] then out = Inl (TypeError ''results[0]'') \<and> files w' = files w
           else \<exists>j. files w' = (files w)(?path :=
                         files w ?path @ take j (report_texts mdl tests results)) \<and>
                    ((out = Inr () \<and> j = Suc (length results)) \<or>
                     (out = Inl WriteFailure \<and> j \<le> length results)))"
        by (auto split: if_splits)
      show ?thesis
        apply (intro exI [of _ warm] exI [of _ calls] conjI)
        apply (simp add: tr tw) apply (fact c1) apply (fact l2) apply (fact m2)
        apply (simp only: sw sv)
        apply (rule disjI2)
        apply (intro exI [of _ r0] exI [of _ results] conjI)
        apply (simp add: r1 \<open>o1 = Inr r0\<close>) apply (fact lc) apply (fact cr) apply (fact e)
        done
    qed
  qed
qed

section \<open>The single request\<close>

text \<open>
  Claim C4. Every call of \<open>benchmarkOllamaWithLangchain\<close> that returns a result was
  answered by the client with a message that carries usage metadata, and in the result
  \<open>elapsedTime\<close> is the reported total duration, in nanoseconds, divided by \<open>1e9\<close>, and
  \<open>tokensPerSecond\<close> is \<open>totalTokens\<close> divided by that \<open>elapsedTime\<close>. In particular
  a total duration of 2000000000 ns with 6 tokens in total gives an elapsed time of 2 seconds
  and 3 tokens per second.
\<close>

theorem prober_result:
  assumes "benchmarkOllamaWithLangchain e input mdl baseUrl w = (Inr r, w')"
  shows "\<exists>msg u. invoke e (server w) (request_of mdl baseUrl input) = (Inr msg, server w') \<and>
           usage_metadata msg = Some u \<and> totalTokens r = total_tokens u \<and>
           elapsedTime r = jdiv (total_duration msg) (Num 1000000000) \<and>
           tokensPerSecond r = jdiv (totalTokens r) (elapsedTime r) \<and>
           (total_duration msg = Num 2000000000 \<and> total_tokens u = Num 6 \<longrightarrow>
              elapsedTime r = Num 2 \<and> tokensPerSecond r = Num 3)"
proof -
  from prober_call [OF assms] obtain c where
    c: "fst c = request_of mdl baseUrl input" "call_result c = Inr r"
       "invoke e (server w) (fst c) = (snd c, server w')"
    by blast
  obtain rq oc where pc: "c = (rq, oc)" by (cases c)
  with c obtain msg where oc: "oc = Inr msg" and
    mk: "make_result (req_input rq) (req_model rq) msg = Inr r"
    by (cases oc) auto
  from mk obtain u where u: "usage_metadata msg = Some u"
    by (cases "usage_metadata msg") (auto simp: make_result_def)
  from mk u have r: "totalTokens r = total_tokens u"
    "elapsedTime r = jdiv (total_duration msg) (Num 1000000000)"
    "tokensPerSecond r = jdiv (total_tokens u) (jdiv (total_duration msg) (Num 1000000000))"
    by (auto simp: make_result_def unary_plus_def Let_def)
  have inv: "invoke e (server w) (request_of mdl baseUrl input) = (Inr msg, server w')"
    using c pc oc by simp
  have ex: "total_duration msg = Num 2000000000 \<and> total_tokens u = Num 6 \<longrightarrow>
              elapsedTime r = Num 2 \<and> tokensPerSecond r = Num 3"
    using r by simp
  show ?thesis
    using inv u r ex by (intro exI [of _ msg] exI [of _ u]) simp
qed

text \<open>The example server answers the prompt \<open>2+2=?\<close> in 2 seconds with 6 tokens.\<close>

lemma test_prober_run:
  "fst (benchmarkOllamaWithLangchain (test_env 9 9) ''2+2=?'' ''test-model''
          ''http://localhost:11434'' test_world) =
   Inr \<lparr> query = ''2+2=?'', model = ''test-model'', tokensPerSecond = Num 3, response = ''4'',
         elapsedTime = Num 2, inputTokens = Num 5, outputTokens = Num 1, totalTokens = Num 6 \<rparr>"
  by (simp add: benchmarkOllamaWithLangchain_def make_result_def test_env_def test_world_def
        test_message_def test_usage_def unary_plus_def Let_def)

theorem prober_result_witness:
  "(case fst (benchmarkOllamaWithLangchain (test_env 9 9) ''2+2=?'' ''test-model''
          ''http://localhost:11434'' test_world) of
      Inl err \<Rightarrow> False
    | Inr r \<Rightarrow> elapsedTime r = Num 2 \<and> tokensPerSecond r = Num 3 \<and>
               tokensPerSecond r = jdiv (totalTokens r) (elapsedTime r))"
proof -
  let ?run = "benchmarkOllamaWithLangchain (test_env 9 9) ''2+2=?'' ''test-model''
          ''http://localhost:11434'' test_world"
  obtain r where r: "fst ?run = Inr r" using test_prober_run by blast
  then have h: "?run = (Inr r, snd ?run)" by (simp add: prod_eq_iff)
  from prober_result [OF h] obtain msg u where
    inv: "invoke (test_env 9 9) (server test_world)
            (request_of ''test-model'' ''http://localhost:11434'' ''2+2=?'') = (Inr msg, server (snd ?run))"
    and u: "usage_metadata msg = Some u"
    and rate: "tokensPerSecond r = jdiv (totalTokens r) (elapsedTime r)"
    and ex: "total_duration msg = Num 2000000000 \<and> total_tokens u = Num 6 \<longrightarrow>
              elapsedTime r = Num 2 \<and> tokensPerSecond r = Num 3"
    by blast
  from inv have "msg = test_message 0" by (simp add: test_env_def test_world_def)
  with u have "total_duration msg = Num 2000000000 \<and> total_tokens u = Num 6"
    by (auto simp: test_message_def test_usage_def)
  with ex have "elapsedTime r = Num 2 \<and> tokensPerSecond r = Num 3" by blast
  with rate have "elapsedTime r = Num 2 \<and> tokensPerSecond r = Num 3 \<and>
               tokensPerSecond r = jdiv (totalTokens r) (elapsedTime r)"
    by blast
  then show ?thesis unfolding r sum.case .
qed

section \<open>Completed runs\<close>

text \<open>
  A run that is fulfilled made the warm-up call and then one call for each prompt, in order,
  all answered with a result, and appended the complete report to its file.
\<close>

lemma run_completes:
  assumes "runBenchmark e tests mdl baseUrl w = (Inr (), w')"
  shows "\<exists>warm calls results.
     trace w' = trace w @ warm # calls \<and> fst warm = request_of mdl baseUrl ''Hello'' \<and>
     map fst calls = map (request_of mdl baseUrl) tests \<and>
     serve_all e (server w) (map fst (warm # calls)) = (map snd (warm # calls), server w') \<and>
     map call_result calls = map Inr results \<and> results \<noteq> [] \<and>
     length results = length tests \<and> map query results = tests \<and>
     files w' = (files w)(report_path (now e) :=
                   files w (report_path (now e)) @ report_texts mdl tests results)"
proof -
  from run_cases [OF assms] obtain warm calls where
    tr: "trace w' = trace w @ warm # calls" and hw: "fst warm = request_of mdl baseUrl ''Hello''" and
    m: "map fst calls = map (request_of mdl baseUrl) (take (length calls) tests)" and
    sv: "serve_all e (server w) (map fst (warm # calls)) = (map snd (warm # calls), server w')" and
    d: "(\<exists>err. call_result (last (warm # calls)) = Inl err \<and> Inr () = Inl err \<and> files w' = files w) \<or>
      (\<exists>r0 results. call_result warm = Inr r0 \<and> length calls = length tests \<and>
          map call_result calls = map Inr results \<and>
          (if results = [] then Inr () = Inl (TypeError ''results[0]'') \<and> files w' = files w
           else \<exists>j. files w' = (files w)(report_path (now e) :=
                         files w (report_path (now e)) @ take j (report_texts mdl tests results)) \<and>
                    ((Inr () = (Inr () :: error + unit) \<and> j = Suc (length results)) \<or>
                     (Inr () = Inl WriteFailure \<and> j \<le> length results))))"
    by blast
  from d obtain results where lc: "length calls = length tests" and
    cr: "map call_result calls = map Inr results" and ne: "results \<noteq> []" and
    fl: "files w' = (files w)(report_path (now e) :=
           files w (report_path (now e)) @ take (Suc (length results)) (report_texts mdl tests results))"
    by (auto split: if_splits)
  from m lc have m': "map fst calls = map (request_of mdl baseUrl) tests" by simp
  from results_of_calls [OF m' cr] have q: "map query results = tests" by simp
  then have lr: "length results = length tests" by (metis length_map)
  have "length (report_texts mdl tests results) = Suc (length results)"
    by (simp add: report_texts_def test_texts_def)
  with fl have fl': "files w' = (files w)(report_path (now e) :=
           files w (report_path (now e)) @ report_texts mdl tests results)"
    by simp
  show ?thesis
    apply (intro exI [of _ warm] exI [of _ calls] exI [of _ results] conjI)
    apply (fact tr) apply (fact hw) apply (fact m') apply (fact sv) apply (fact cr)
    apply (fact ne) apply (fact lr) apply (fact q) apply (fact fl')
    done
qed

text \<open>
  The totals are sums and the averages are quotients, whatever the results.
\<close>

lemma summary_stats_totals:
  "totalTime (summary_stats rs) = sum_of (map elapsedTime rs)"
  "totalInputTokens (summary_stats rs) = sum_of (map inputTokens rs)"
  "totalOutputTokens (summary_stats rs) = sum_of (map outputTokens rs)"
  "totalTokens_summary (summary_stats rs) = sum_of (map totalTokens rs)"
  by (simp_all add: summary_stats_def Let_def reduce_is_sum)

lemma summary_stats_averages:
  "averageTime (summary_stats rs) = jdiv (totalTime (summary_stats rs)) (Num (real (length rs)))"
  "averageInputTokens (summary_stats rs) =
     jdiv (totalInputTokens (summary_stats rs)) (Num (real (length rs)))"
  "averageOutputTokens (summary_stats rs) =
     jdiv (totalOutputTokens (summary_stats rs)) (Num (real (length rs)))"
  "averageTotalTokens (summary_stats rs) =
     jdiv (totalTokens_summary (summary_stats rs)) (Num (real (length rs)))"
  "averageTokensPerSecond (summary_stats rs) = mean_of (map tokensPerSecond rs)"
  by (simp_all add: summary_stats_def Let_def reduce_is_sum mean_of_def length_num_def)

text \<open>
  The example server completes the run of the single prompt \<open>2+2=?\<close>, and the run of
  two prompts, of which the second is answered in 4 seconds.
\<close>

lemma test_run_completes:
  "fst (runBenchmark (test_env 9 9) [''2+2=?''] ''test-model'' ''http://localhost:11434''
         test_world) = Inr ()"
  by (simp add: runBenchmark_def benchmarkOllamaWithLangchain_def make_result_def
        summaryTemplate_def writeFile_def test_env_def test_world_def test_message_def
        test_usage_def unary_plus_def Let_def)

lemma test_run_two:
  "files (snd (runBenchmark (test_env 9 9) [''a'', ''b''] ''m'' ''u'' test_world))
     (report_path test_date) =
   [SummaryText ''m'' 2
      \<lparr> totalTime = Num 6, totalInputTokens = Num 10, totalOutputTokens = Num 2,
        totalTokens_summary = Num 12, averageTime = Num 3, averageInputTokens = Num 5,
        averageOutputTokens = Num 1, averageTotalTokens = Num 6,
        averageTokensPerSecond = Num (9 / 4) \<rparr>
      [(1, ''a''), (2, ''b'')],
    TestText 1 \<lparr> query = ''a'', model = ''m'', tokensPerSecond = Num 3, response = ''4'',
         elapsedTime = Num 2, inputTokens = Num 5, outputTokens = Num 1, totalTokens = Num 6 \<rparr>,
    TestText 2 \<lparr> query = ''b'', model = ''m'', tokensPerSecond = Num (3 / 2), response = ''4'',
         elapsedTime = Num 4, inputTokens = Num 5, outputTokens = Num 1, totalTokens = Num 6 \<rparr>]"
  by (simp add: runBenchmark_def benchmarkOllamaWithLangchain_def make_result_def
        summaryTemplate_def writeFile_def test_env_def test_world_def test_message_def
        test_usage_def unary_plus_def Let_def summary_stats_def length_num_def)

text \<open>
  Claim C1. For every non-empty prompt list, in a run that completes the report begins with
  the summary, followed by one text for each result, and the totals of the summary are the sums
  of the per-test values of these results: total tokens of \<open>totalTokens\<close>, total input
  tokens of \<open>inputTokens\<close>, total output tokens of \<open>outputTokens\<close> and total time of
  \<open>elapsedTime\<close>.
\<close>

theorem summary_totals:
  assumes "tests \<noteq> []" and "runBenchmark e tests mdl baseUrl w = (Inr (), w')"
  shows "\<exists>results st.
     files w' (report_path (now e)) =
       files w (report_path (now e)) @
       SummaryText mdl (length tests) st (enumerate 1 tests) # test_texts results \<and>
     length results = length tests \<and>
     totalTokens_summary st = sum_of (map totalTokens results) \<and>
     totalInputTokens st = sum_of (map inputTokens results) \<and>
     totalOutputTokens st = sum_of (map outputTokens results) \<and>
     totalTime st = sum_of (map elapsedTime results)"
proof -
  from run_completes [OF assms(2)] obtain results where
    lr: "length results = length tests" and
    fl: "files w' = (files w)(report_path (now e) :=
                   files w (report_path (now e)) @ report_texts mdl tests results)"
    by blast
  have "files w' (report_path (now e)) =
       files w (report_path (now e)) @
       SummaryText mdl (length tests) (summary_stats results) (enumerate 1 tests) #
       test_texts results"
    using fl lr by (simp add: report_texts_def)
  then show ?thesis
    using lr summary_stats_totals [of results]
    by (intro exI [of _ results] exI [of _ "summary_stats results"]) simp
qed

theorem summary_totals_witness:
  "[''2+2=?''] \<noteq> [] \<and>
   fst (runBenchmark (test_env 9 9) [''2+2=?''] ''test-model'' ''http://localhost:11434''
         test_world) = Inr () \<and>
   (\<exists>results st.
     files (snd (runBenchmark (test_env 9 9) [''2+2=?''] ''test-model''
         ''http://localhost:11434'' test_world)) (report_path (now (test_env 9 9))) =
       files test_world (report_path (now (test_env 9 9))) @
       SummaryText ''test-model'' (length [''2+2=?'']) st (enumerate 1 [''2+2=?'']) #
       test_texts results \<and>
     length results = length [''2+2=?''] \<and>
     totalTokens_summary st = sum_of (map totalTokens results) \<and>
     totalInputTokens st = sum_of (map inputTokens results) \<and>
     totalOutputTokens st = sum_of (map outputTokens results) \<and>
     totalTime st = sum_of (map elapsedTime results))"
proof -
  let ?run = "runBenchmark (test_env 9 9) [''2+2=?''] ''test-model'' ''http://localhost:11434''
         test_world"
  have ne: "[''2+2=?''] \<noteq> []" by simp
  have h: "?run = (Inr (), snd ?run)" using test_run_completes by (simp add: prod_eq_iff)
  from summary_totals [OF ne h] test_run_completes ne show ?thesis by blast
qed

text \<open>
  Claim C2. In a run that completes, the result sequence is not empty and the Score of the
  summary, \<open>averageTokensPerSecond\<close>, is the arithmetic mean of the \<open>tokensPerSecond\<close>
  of the results; it is not the total of tokens divided by the total time: in the run of two
  prompts on the example server, answered with 6 tokens each in 2 and in 4 seconds, the Score is
  9/4 tokens per second while total tokens by total time is 2.
\<close>

theorem score_is_mean_of_rates:
  assumes "runBenchmark e tests mdl baseUrl w = (Inr (), w')"
  shows "(\<exists>results st.
     files w' (report_path (now e)) =
       files w (report_path (now e)) @
       SummaryText mdl (length tests) st (enumerate 1 tests) # test_texts results \<and>
     results \<noteq> [] \<and> length results = length tests \<and>
     averageTokensPerSecond st = mean_of (map tokensPerSecond results)) \<and>
   (case files (snd (runBenchmark (test_env 9 9) [''a'', ''b''] ''m'' ''u'' test_world))
           (report_path test_date) of
      SummaryText m n st ps # texts \<Rightarrow>
        averageTokensPerSecond st = Num (9 / 4) \<and>
        jdiv (totalTokens_summary st) (totalTime st) = Num 2
    | _ \<Rightarrow> False)"
proof
  from run_completes [OF assms] obtain results where
    ne: "results \<noteq> []" and lr: "length results = length tests" and
    fl: "files w' = (files w)(report_path (now e) :=
                   files w (report_path (now e)) @ report_texts mdl tests results)"
    by blast
  have "files w' (report_path (now e)) =
       files w (report_path (now e)) @
       SummaryText mdl (length tests) (summary_stats results) (enumerate 1 tests) #
       test_texts results"
    using fl lr by (simp add: report_texts_def)
  then show "\<exists>results st.
     files w' (report_path (now e)) =
       files w (report_path (now e)) @
       SummaryText mdl (length tests) st (enumerate 1 tests) # test_texts results \<and>
     results \<noteq> [] \<and> length results = length tests \<and>
     averageTokensPerSecond st = mean_of (map tokensPerSecond results)"
    using ne lr summary_stats_averages(5) [of results]
    by (intro exI [of _ results] exI [of _ "summary_stats results"]) simp
next
  show "(case files (snd (runBenchmark (test_env 9 9) [''a'', ''b''] ''m'' ''u'' test_world))
           (report_path test_date) of
      SummaryText m n st ps # texts \<Rightarrow>
        averageTokensPerSecond st = Num (9 / 4) \<and>
        jdiv (totalTokens_summary st) (totalTime st) = Num 2
    | _ \<Rightarrow> False)"
    by (simp add: test_run_two)
qed

theorem score_is_mean_of_rates_witness:
  "fst (runBenchmark (test_env 9 9) [''2+2=?''] ''test-model'' ''http://localhost:11434''
         test_world) = Inr () \<and>
   (\<exists>results st.
     files (snd (runBenchmark (test_env 9 9) [''2+2=?''] ''test-model''
         ''http://localhost:11434'' test_world)) (report_path (now (test_env 9 9))) =
       files test_world (report_path (now (test_env 9 9))) @
       SummaryText ''test-model'' (length [''2+2=?'']) st (enumerate 1 [''2+2=?'']) #
       test_texts results \<and>
     results \<noteq> [] \<and> length results = length [''2+2=?''] \<and>
     averageTokensPerSecond st = mean_of (map tokensPerSecond results))"
proof -
  let ?run = "runBenchmark (test_env 9 9) [''2+2=?''] ''test-model'' ''http://localhost:11434''
         test_world"
  have h: "?run = (Inr (), snd ?run)" using test_run_completes by (simp add: prod_eq_iff)
  from score_is_mean_of_rates [OF h] test_run_completes show ?thesis by blast
qed

text \<open>
  Claim C3. In a run that completes, the result sequence is not empty and each average of
  the summary (time, input tokens, output tokens, total tokens) is the corresponding total of
  the summary divided by the number of results.
\<close>

theorem summary_averages:
  assumes "runBenchmark e tests mdl baseUrl w = (Inr (), w')"
  shows "\<exists>results st.
     files w' (report_path (now e)) =
       files w (report_path (now e)) @
       SummaryText mdl (length results) st (enumerate 1 tests) # test_texts results \<and>
     results \<noteq> [] \<and> length results = length tests \<and>
     averageTime st = jdiv (totalTime st) (Num (real (length results))) \<and>
     averageInputTokens st = jdiv (totalInputTokens st) (Num (real (length results))) \<and>
     averageOutputTokens st = jdiv (totalOutputTokens st) (Num (real (length results))) \<and>
     averageTotalTokens st = jdiv (totalTokens_summary st) (Num (real (length results)))"
proof -
  from run_completes [OF assms] obtain results where
    ne: "results \<noteq> []" and lr: "length results = length tests" and
    fl: "files w' = (files w)(report_path (now e) :=
                   files w (report_path (now e)) @ report_texts mdl tests results)"
    by blast
  have "files w' (report_path (now e)) =
       files w (report_path (now e)) @
       SummaryText mdl (length results) (summary_stats results) (enumerate 1 tests) #
       test_texts results"
    using fl by (simp add: report_texts_def)
  then show ?thesis
    using ne lr summary_stats_averages(1-4) [of results]
    by (intro exI [of _ results] exI [of _ "summary_stats results"]) simp
qed

theorem summary_averages_witness:
  "fst (runBenchmark (test_env 9 9) [''a'', ''b''] ''m'' ''u'' test_world) = Inr () \<and>
   (\<exists>results st.
     files (snd (runBenchmark (test_env 9 9) [''a'', ''b''] ''m'' ''u'' test_world))
         (report_path (now (test_env 9 9))) =
       files test_world (report_path (now (test_env 9 9))) @
       SummaryText ''m'' (length results) st (enumerate 1 [''a'', ''b'']) # test_texts results \<and>
     results \<noteq> [] \<and> length results = length [''a'', ''b''] \<and>
     averageTime st = jdiv (totalTime st) (Num (real (length results))) \<and>
     averageInputTokens st = jdiv (totalInputTokens st) (Num (real (length results))) \<and>
     averageOutputTokens st = jdiv (totalOutputTokens st) (Num (real (length results))) \<and>
     averageTotalTokens st = jdiv (totalTokens_summary st) (Num (real (length results))))"
proof -
  let ?run = "runBenchmark (test_env 9 9) [''a'', ''b''] ''m'' ''u'' test_world"
  have c: "fst ?run = Inr ()"
    by (simp add: runBenchmark_def benchmarkOllamaWithLangchain_def make_result_def
        summaryTemplate_def writeFile_def test_env_def test_world_def test_message_def
        test_usage_def unary_plus_def Let_def)
  then have h: "?run = (Inr (), snd ?run)" by (simp add: prod_eq_iff)
  from summary_averages [OF h] c show ?thesis by blast
qed

section \<open>The name of the report file\<close>

text \<open>
  The digits that \<open>pad\<close> writes, and what the two replacements leave.
\<close>

lemma is_digit_digit: "is_digit (digit d)"
  by (simp add: is_digit_def digit_def)

lemma digit_not_separator: "digit d \<noteq> CHR '':''" "digit d \<noteq> CHR ''.''"
  by (simp_all add: digit_def)

lemma pad_2: "pad 2 n = [digit (n div 10 mod 10), digit (n mod 10)]"
  by (simp add: numeral_2_eq_2)

lemma pad_3: "pad 3 n = [digit (n div 10 div 10 mod 10), digit (n div 10 mod 10), digit (n mod 10)]"
  by (simp add: numeral_3_eq_3)

lemma pad_4:
  "pad 4 n = [digit (n div 10 div 10 div 10 mod 10), digit (n div 10 div 10 mod 10),
              digit (n div 10 mod 10), digit (n mod 10)]"
proof -
  have "(4::nat) = Suc (Suc (Suc (Suc 0)))" by simp
  then have "pad 4 n = pad (Suc (Suc (Suc (Suc 0)))) n" by (rule arg_cong)
  then show ?thesis by simp
qed

lemma replace_all_absent: "r \<noteq> c \<Longrightarrow> c \<notin> set (replace_all c r s)"
  by (auto simp: replace_all_def)

lemma replace_all_keeps_absent: "c \<notin> set s \<Longrightarrow> r \<noteq> c \<Longrightarrow> c \<notin> set (replace_all d r s)"
  by (auto simp: replace_all_def)

lemma benchmarkDateTime_chars:
  "CHR '':'' \<notin> set (benchmarkDateTime d) \<and> CHR ''.'' \<notin> set (benchmarkDateTime d)"
  unfolding benchmarkDateTime_def
  by (intro conjI replace_all_absent replace_all_keeps_absent) simp_all

lemma benchmarkDateTime_pointwise:
  "length (benchmarkDateTime d) = length (toISOString d) \<and>
   (\<forall>i < length (toISOString d).
      benchmarkDateTime d ! i =
        (if toISOString d ! i = CHR '':'' \<or> toISOString d ! i = CHR ''.'' then CHR ''-''
         else toISOString d ! i))"
  by (simp add: benchmarkDateTime_def replace_all_def)

lemma toISOString_form:
  assumes "0 \<le> year d" and "year d \<le> 9999"
  shows "has_form ''dddd-dd-ddTdd:dd:dd.dddZ'' (toISOString d)"
  using assms by (simp add: toISOString_def year_string_def pad_2 pad_3 pad_4 is_digit_digit)

lemma benchmarkDateTime_form:
  assumes "0 \<le> year d" and "year d \<le> 9999"
  shows "has_form ''dddd-dd-ddTdd-dd-dd-dddZ'' (benchmarkDateTime d)"
  using assms
  by (simp add: benchmarkDateTime_def replace_all_def toISOString_def year_string_def
        pad_2 pad_3 pad_4 is_digit_digit digit_not_separator)

lemma test_date_string: "benchmarkDateTime test_date = ''2024-01-02T03-04-05-006Z''"
  by (simp add: benchmarkDateTime_def replace_all_def toISOString_def year_string_def
        pad_2 pad_3 pad_4 test_date_def digit_def)

lemma test_date_valid: "valid_date test_date \<and> 0 \<le> year test_date \<and> year test_date \<le> 9999"
  by (simp add: valid_date_def test_date_def)

text \<open>
  A run writes to no other file than its report.
\<close>

lemma run_other_files:
  assumes "runBenchmark e tests mdl baseUrl w = (out, w')" and "p \<noteq> report_path (now e)"
  shows "files w' p = files w p"
proof -
  from run_cases [OF assms(1)] have
    "files w' = files w \<or>
     (\<exists>txts. files w' = (files w)(report_path (now e) := files w (report_path (now e)) @ txts))"
    by (auto split: if_splits)
  with assms(2) show ?thesis by auto
qed

text \<open>
  Claim C7, as the specification states it, asks for a timestamp of the form
  \<open>YYYY-MM-DDTHH-MM-SS-mmm\<close>. The timestamp of a run started on 2 January 2024 at
  03:04:05.006 UTC is \<open>2024-01-02T03-04-05-006Z\<close>: the \<open>Z\<close> that ends the ISO string
  is neither a colon nor a period and stays, so the timestamp has not that form.
\<close>

theorem timestamp_form_counterexample:
  "\<not> has_form ''dddd-dd-ddTdd-dd-dd-ddd'' (benchmarkDateTime test_date)"
  by (simp add: test_date_string)

text \<open>
  Claim C7, amended. For every run that starts at a valid date with a year from 0 to 9999,
  the only file the run writes to, and the file that holds the report when the run completes, is
  \<open>./results/benchmark-<timestamp>.md\<close>, where the timestamp is the ISO-8601 string of the
  start time, \<open>YYYY-MM-DDTHH:mm:ss.sssZ\<close>, with every colon and every period replaced by a
  hyphen and every other character kept; so the timestamp has the form
  \<open>YYYY-MM-DDTHH-MM-SS-mmmZ\<close> and contains no colon and no period.
\<close>

theorem report_file_name:
  assumes "runBenchmark e tests mdl baseUrl w = (out, w')"
    and "valid_date (now e)" and "0 \<le> year (now e)" and "year (now e) \<le> 9999"
  shows "(\<forall>p. p \<noteq> ''./results/benchmark-'' @ benchmarkDateTime (now e) @ ''.md'' \<longrightarrow>
            files w' p = files w p) \<and>
         (out = Inr () \<longrightarrow>
            (\<exists>results. files w' (''./results/benchmark-'' @ benchmarkDateTime (now e) @ ''.md'') =
               files w (''./results/benchmark-'' @ benchmarkDateTime (now e) @ ''.md'') @
               report_texts mdl tests results)) \<and>
         has_form ''dddd-dd-ddTdd:dd:dd.dddZ'' (toISOString (now e)) \<and>
         length (benchmarkDateTime (now e)) = length (toISOString (now e)) \<and>
         (\<forall>i < length (toISOString (now e)).
            benchmarkDateTime (now e) ! i =
              (if toISOString (now e) ! i = CHR '':'' \<or> toISOString (now e) ! i = CHR ''.''
               then CHR ''-'' else toISOString (now e) ! i)) \<and>
         has_form ''dddd-dd-ddTdd-dd-dd-dddZ'' (benchmarkDateTime (now e)) \<and>
         CHR '':'' \<notin> set (benchmarkDateTime (now e)) \<and>
         CHR ''.'' \<notin> set (benchmarkDateTime (now e))"
proof -
  have path: "''./results/benchmark-'' @ benchmarkDateTime (now e) @ ''.md'' = report_path (now e)"
    by (simp add: report_path_def)
  have a: "\<forall>p. p \<noteq> report_path (now e) \<longrightarrow> files w' p = files w p"
    using run_other_files [OF assms(1)] by blast
  have b: "out = Inr () \<longrightarrow>
            (\<exists>results. files w' (report_path (now e)) =
               files w (report_path (now e)) @ report_texts mdl tests results)"
  proof
    assume "out = Inr ()"
    with assms(1) have "runBenchmark e tests mdl baseUrl w = (Inr (), w')" by simp
    from run_completes [OF this] obtain results where
      "files w' = (files w)(report_path (now e) :=
                   files w (report_path (now e)) @ report_texts mdl tests results)"
      by blast
    then have "files w' (report_path (now e)) =
               files w (report_path (now e)) @ report_texts mdl tests results"
      by simp
    then show "\<exists>results. files w' (report_path (now e)) =
               files w (report_path (now e)) @ report_texts mdl tests results" ..
  qed
  show ?thesis
    unfolding path
    using a b toISOString_form [OF assms(3,4)] benchmarkDateTime_form [OF assms(3,4)]
      benchmarkDateTime_pointwise [of "now e"] benchmarkDateTime_chars [of "now e"]
    by blast
qed

theorem report_file_name_witness:
  "fst (runBenchmark (test_env 9 9) [''2+2=?''] ''test-model'' ''http://localhost:11434''
         test_world) = Inr () \<and>
   valid_date test_date \<and> 0 \<le> year test_date \<and> year test_date \<le> 9999 \<and>
   (\<exists>results. files (snd (runBenchmark (test_env 9 9) [''2+2=?''] ''test-model''
          ''http://localhost:11434'' test_world)) ''./results/benchmark-2024-01-02T03-04-05-006Z.md'' =
        report_texts ''test-model'' [''2+2=?''] results) \<and>
   has_form ''dddd-dd-ddTdd-dd-dd-dddZ'' ''2024-01-02T03-04-05-006Z'' \<and>
   CHR '':'' \<notin> set ''2024-01-02T03-04-05-006Z'' \<and>
   CHR ''.'' \<notin> set ''2024-01-02T03-04-05-006Z''"
proof -
  let ?run = "runBenchmark (test_env 9 9) [''2+2=?''] ''test-model'' ''http://localhost:11434''
         test_world"
  have n: "now (test_env 9 9) = test_date" by (simp add: test_env_def)
  have h: "?run = (Inr (), snd ?run)" using test_run_completes by (simp add: prod_eq_iff)
  have v: "valid_date (now (test_env 9 9))" "0 \<le> year (now (test_env 9 9))"
    "year (now (test_env 9 9)) \<le> 9999"
    using test_date_valid by (simp_all add: n)
  have f: "files test_world ''./results/benchmark-2024-01-02T03-04-05-006Z.md'' = []"
    by (simp add: test_world_def)
  from report_file_name [OF h v] test_run_completes test_date_valid f show ?thesis
    unfolding n test_date_string by simp
qed

section \<open>The order of calls and writes\<close>

text \<open>
  What the example server is asked in the run of one prompt and in the run of two.
\<close>

lemma test_run_trace:
  "trace (snd (runBenchmark (test_env 9 9) [''2+2=?''] ''test-model'' ''http://localhost:11434''
         test_world)) =
   [(\<lparr> req_input = ''Hello'', req_model = ''test-model'', req_baseUrl = ''http://localhost:11434'' \<rparr>,
     Inr (test_message 0)),
    (\<lparr> req_input = ''2+2=?'', req_model = ''test-model'', req_baseUrl = ''http://localhost:11434'' \<rparr>,
     Inr (test_message 1))]"
  by (simp add: runBenchmark_def benchmarkOllamaWithLangchain_def make_result_def
        summaryTemplate_def writeFile_def test_env_def test_world_def test_message_def
        test_usage_def unary_plus_def Let_def)

lemma test_run_two_completes:
  "fst (runBenchmark (test_env 9 9) [''a'', ''b''] ''m'' ''u'' test_world) = Inr ()"
  by (simp add: runBenchmark_def benchmarkOllamaWithLangchain_def make_result_def
        summaryTemplate_def writeFile_def test_env_def test_world_def test_message_def
        test_usage_def unary_plus_def Let_def)

lemma test_run_two_trace:
  "trace (snd (runBenchmark (test_env 9 9) [''a'', ''b''] ''m'' ''u'' test_world)) =
   [(\<lparr> req_input = ''Hello'', req_model = ''m'', req_baseUrl = ''u'' \<rparr>, Inr (test_message 0)),
    (\<lparr> req_input = ''a'', req_model = ''m'', req_baseUrl = ''u'' \<rparr>, Inr (test_message 1)),
    (\<lparr> req_input = ''b'', req_model = ''m'', req_baseUrl = ''u'' \<rparr>, Inr (test_message 2))]"
  by (simp add: runBenchmark_def benchmarkOllamaWithLangchain_def make_result_def
        summaryTemplate_def writeFile_def test_env_def test_world_def test_message_def
        test_usage_def unary_plus_def Let_def)

text \<open>
  The texts of the second loop are numbered from 1 in the order of the results, and calls
  that gave results were all answered.
\<close>

lemma nth_test_texts: "i < length rs \<Longrightarrow> test_texts rs ! i = TestText (i + 1) (rs ! i)"
  by (simp add: test_texts_def nth_enumerate_eq)

lemma all_calls_answered:
  assumes "map call_result calls = map Inr results" and "c \<in> set calls"
  shows "\<exists>r. call_result c = Inr r"
proof -
  from assms(2) have "call_result c \<in> set (map call_result calls)" by simp
  with assms(1) have "call_result c \<in> set (map Inr results)" by simp
  then show ?thesis by auto
qed

text \<open>
  Claim C5. In every run, whatever its outcome, the calls made are one warm-up call with the
  prompt \<open>Hello\<close>, made first, followed by calls for the prompts of the list only. The
  result of the warm-up call is not recorded and is in no text of the report: whatever the run
  wrote is a beginning of the report built from one result for each prompt, and these results
  are those of the calls that follow the warm-up call.
\<close>

theorem warm_up_discarded:
  assumes "runBenchmark e tests mdl baseUrl w = (out, w')"
  shows "\<exists>warm calls.
     trace w' = trace w @ warm # calls \<and> fst warm = request_of mdl baseUrl ''Hello'' \<and>
     map fst calls = map (request_of mdl baseUrl) (take (length calls) tests) \<and>
     (files w' = files w \<or>
      (\<exists>results j. map call_result calls = map Inr results \<and> length results = length tests \<and>
         files w' = (files w)(report_path (now e) :=
            files w (report_path (now e)) @ take j (report_texts mdl tests results))))"
proof -
  from run_cases [OF assms] obtain warm calls where
    tr: "trace w' = trace w @ warm # calls" and hw: "fst warm = request_of mdl baseUrl ''Hello''" and
    m: "map fst calls = map (request_of mdl baseUrl) (take (length calls) tests)" and
    d: "(\<exists>err. call_result (last (warm # calls)) = Inl err \<and> out = Inl err \<and> files w' = files w) \<or>
      (\<exists>r0 results. call_result warm = Inr r0 \<and> length calls = length tests \<and>
          map call_result calls = map Inr results \<and>
          (if results = [] then out = Inl (TypeError ''results[0]'') \<and> files w' = files w
           else \<exists>j. files w' = (files w)(report_path (now e) :=
                         files w (report_path (now e)) @ take j (report_texts mdl tests results)) \<and>
                    ((out = Inr () \<and> j = Suc (length results)) \<or>
                     (out = Inl WriteFailure \<and> j \<le> length results))))"
    by blast
  have e: "files w' = files w \<or>
      (\<exists>results j. map call_result calls = map Inr results \<and> length results = length tests \<and>
         files w' = (files w)(report_path (now e) :=
            files w (report_path (now e)) @ take j (report_texts mdl tests results)))"
    using d
  proof
    assume "\<exists>err. call_result (last (warm # calls)) = Inl err \<and> out = Inl err \<and> files w' = files w"
    then show ?thesis by blast
  next
    assume "\<exists>r0 results. call_result warm = Inr r0 \<and> length calls = length tests \<and>
          map call_result calls = map Inr results \<and>
          (if results = [] then out = Inl (TypeError ''results[0]'') \<and> files w' = files w
           else \<exists>j. files w' = (files w)(report_path (now e) :=
                         files w (report_path (now e)) @ take j (report_texts mdl tests results)) \<and>
                    ((out = Inr () \<and> j = Suc (length results)) \<or>
                     (out = Inl WriteFailure \<and> j \<le> length results)))"
    then obtain results where lc: "length calls = length tests" and
      cr: "map call_result calls = map Inr results" and
      i: "if results = [] then out = Inl (TypeError ''results[0]'') \<and> files w' = files w
           else \<exists>j. files w' = (files w)(report_path (now e) :=
                         files w (report_path (now e)) @ take j (report_texts mdl tests results)) \<and>
                    ((out = Inr () \<and> j = Suc (length results)) \<or>
                     (out = Inl WriteFailure \<and> j \<le> length results))"
      by blast
    from cr have "length calls = length results" by (metis length_map)
    with lc have lr: "length results = length tests" by simp
    show ?thesis
    proof (cases "results = []")
      case True
      with i show ?thesis by simp
    next
      case False
      with i obtain j where "files w' = (files w)(report_path (now e) :=
                         files w (report_path (now e)) @ take j (report_texts mdl tests results))"
        by auto
      with cr lr show ?thesis by blast
    qed
  qed
  show ?thesis
    apply (intro exI [of _ warm] exI [of _ calls] conjI)
    apply (fact tr) apply (fact hw) apply (fact m) apply (fact e)
    done
qed

theorem warm_up_discarded_witness:
  "trace (snd (runBenchmark (test_env 9 9) [''2+2=?''] ''test-model'' ''http://localhost:11434''
         test_world)) =
   [(\<lparr> req_input = ''Hello'', req_model = ''test-model'', req_baseUrl = ''http://localhost:11434'' \<rparr>,
     Inr (test_message 0)),
    (\<lparr> req_input = ''2+2=?'', req_model = ''test-model'', req_baseUrl = ''http://localhost:11434'' \<rparr>,
     Inr (test_message 1))] \<and>
   (\<exists>warm calls.
     trace (snd (runBenchmark (test_env 9 9) [''2+2=?''] ''test-model'' ''http://localhost:11434''
         test_world)) = trace test_world @ warm # calls \<and>
     fst warm = request_of ''test-model'' ''http://localhost:11434'' ''Hello'' \<and>
     map fst calls = map (request_of ''test-model'' ''http://localhost:11434'')
        (take (length calls) [''2+2=?'']) \<and>
     (files (snd (runBenchmark (test_env 9 9) [''2+2=?''] ''test-model''
         ''http://localhost:11434'' test_world)) = files test_world \<or>
      (\<exists>results j. map call_result calls = map Inr results \<and>
         length results = length [''2+2=?''] \<and>
         files (snd (runBenchmark (test_env 9 9) [''2+2=?''] ''test-model''
            ''http://localhost:11434'' test_world)) =
         (files test_world)(report_path (now (test_env 9 9)) :=
            files test_world (report_path (now (test_env 9 9))) @
            take j (report_texts ''test-model'' [''2+2=?''] results)))))"
proof -
  let ?run = "runBenchmark (test_env 9 9) [''2+2=?''] ''test-model'' ''http://localhost:11434''
         test_world"
  have h: "?run = (fst ?run, snd ?run)" by simp
  from warm_up_discarded [OF h] test_run_trace show ?thesis by blast
qed

text \<open>
  Claim C8. In every run the calls after the warm-up call are calls for the prompts in list
  order, one for each prompt up to the last call made, and each call starts in the state of the
  server that the call before it left, which is what awaiting each call means; unless a call
  failed and ended the run, every prompt of the list got its call. When the run completes, the
  \<open>i\<close>-th result has the \<open>i\<close>-th prompt as its \<open>query\<close>, and the per-test texts of
  the report follow the summary in the same order, the \<open>i\<close>-th result under the number
  \<open>i + 1\<close>.
\<close>

theorem prompts_in_order:
  assumes "runBenchmark e tests mdl baseUrl w = (out, w')"
  shows "\<exists>warm calls.
     trace w' = trace w @ warm # calls \<and>
     map fst calls = map (request_of mdl baseUrl) (take (length calls) tests) \<and>
     serve_all e (server w) (map fst (warm # calls)) = (map snd (warm # calls), server w') \<and>
     ((\<exists>err. call_result (last (warm # calls)) = Inl err \<and> out = Inl err) \<or>
      map fst calls = map (request_of mdl baseUrl) tests) \<and>
     (out = Inr () \<longrightarrow>
        (\<exists>results. map call_result calls = map Inr results \<and> length results = length tests \<and>
           (\<forall>i < length tests. query (results ! i) = tests ! i) \<and>
           files w' (report_path (now e)) =
             files w (report_path (now e)) @
             SummaryText mdl (length tests) (summary_stats results) (enumerate 1 tests) #
             test_texts results \<and>
           (\<forall>i < length tests. test_texts results ! i = TestText (i + 1) (results ! i))))"
proof -
  from run_cases [OF assms] obtain warm calls where
    tr: "trace w' = trace w @ warm # calls" and
    m: "map fst calls = map (request_of mdl baseUrl) (take (length calls) tests)" and
    sv: "serve_all e (server w) (map fst (warm # calls)) = (map snd (warm # calls), server w')" and
    d: "(\<exists>err. call_result (last (warm # calls)) = Inl err \<and> out = Inl err \<and> files w' = files w) \<or>
      (\<exists>r0 results. call_result warm = Inr r0 \<and> length calls = length tests \<and>
          map call_result calls = map Inr results \<and>
          (if results = [] then out = Inl (TypeError ''results[0]'') \<and> files w' = files w
           else \<exists>j. files w' = (files w)(report_path (now e) :=
                         files w (report_path (now e)) @ take j (report_texts mdl tests results)) \<and>
                    ((out = Inr () \<and> j = Suc (length results)) \<or>
                     (out = Inl WriteFailure \<and> j \<le> length results))))"
    by blast
  have a: "(\<exists>err. call_result (last (warm # calls)) = Inl err \<and> out = Inl err) \<or>
      map fst calls = map (request_of mdl baseUrl) tests"
    using d
  proof
    assume "\<exists>err. call_result (last (warm # calls)) = Inl err \<and> out = Inl err \<and> files w' = files w"
    then show ?thesis by blast
  next
    assume "\<exists>r0 results. call_result warm = Inr r0 \<and> length calls = length tests \<and>
          map call_result calls = map Inr results \<and>
          (if results = [] then out = Inl (TypeError ''results[0]'') \<and> files w' = files w
           else \<exists>j. files w' = (files w)(report_path (now e) :=
                         files w (report_path (now e)) @ take j (report_texts mdl tests results)) \<and>
                    ((out = Inr () \<and> j = Suc (length results)) \<or>
                     (out = Inl WriteFailure \<and> j \<le> length results)))"
    then have "length calls = length tests" by blast
    with m have "map fst calls = map (request_of mdl baseUrl) tests" by simp
    then show ?thesis ..
  qed
  have b: "out = Inr () \<longrightarrow>
        (\<exists>results. map call_result calls = map Inr results \<and> length results = length tests \<and>
           (\<forall>i < length tests. query (results ! i) = tests ! i) \<and>
           files w' (report_path (now e)) =
             files w (report_path (now e)) @
             SummaryText mdl (length tests) (summary_stats results) (enumerate 1 tests) #
             test_texts results \<and>
           (\<forall>i < length tests. test_texts results ! i = TestText (i + 1) (results ! i)))"
  proof
    assume "out = Inr ()"
    with assms have "runBenchmark e tests mdl baseUrl w = (Inr (), w')" by simp
    from run_completes [OF this] obtain warm' calls' results where
      tr': "trace w' = trace w @ warm' # calls'" and
      cr: "map call_result calls' = map Inr results" and
      lr: "length results = length tests" and q: "map query results = tests" and
      fl: "files w' = (files w)(report_path (now e) :=
                   files w (report_path (now e)) @ report_texts mdl tests results)"
      by blast
    from tr tr' have same: "calls' = calls" by simp
    have q': "\<forall>i < length tests. query (results ! i) = tests ! i"
    proof (intro allI impI)
      fix i assume "i < length tests"
      then have "i < length results" using lr by simp
      then have "map query results ! i = query (results ! i)" by (rule nth_map)
      with q show "query (results ! i) = tests ! i" by simp
    qed
    have t: "\<forall>i < length tests. test_texts results ! i = TestText (i + 1) (results ! i)"
      using lr nth_test_texts [of _ results] by simp
    have f: "files w' (report_path (now e)) =
             files w (report_path (now e)) @
             SummaryText mdl (length tests) (summary_stats results) (enumerate 1 tests) #
             test_texts results"
      using fl lr by (simp add: report_texts_def)
    from cr same have cr': "map call_result calls = map Inr results" by simp
    show "\<exists>results. map call_result calls = map Inr results \<and> length results = length tests \<and>
           (\<forall>i < length tests. query (results ! i) = tests ! i) \<and>
           files w' (report_path (now e)) =
             files w (report_path (now e)) @
             SummaryText mdl (length tests) (summary_stats results) (enumerate 1 tests) #
             test_texts results \<and>
           (\<forall>i < length tests. test_texts results ! i = TestText (i + 1) (results ! i))"
      apply (intro exI [of _ results] conjI)
      apply (fact cr') apply (fact lr) apply (fact q') apply (fact f) apply (fact t)
      done
  qed
  show ?thesis
    apply (intro exI [of _ warm] exI [of _ calls] conjI)
    apply (fact tr) apply (fact m) apply (fact sv) apply (fact a) apply (fact b)
    done
qed

theorem prompts_in_order_witness:
  "fst (runBenchmark (test_env 9 9) [''a'', ''b''] ''m'' ''u'' test_world) = Inr () \<and>
   map (req_input \<circ> fst)
     (trace (snd (runBenchmark (test_env 9 9) [''a'', ''b''] ''m'' ''u'' test_world))) =
   [''Hello'', ''a'', ''b''] \<and>
   (\<exists>results. length results = length [''a'', ''b''] \<and>
      query (results ! 0) = ''a'' \<and> query (results ! 1) = ''b'' \<and>
      files (snd (runBenchmark (test_env 9 9) [''a'', ''b''] ''m'' ''u'' test_world))
        (report_path (now (test_env 9 9))) =
      files test_world (report_path (now (test_env 9 9))) @
      SummaryText ''m'' (length [''a'', ''b'']) (summary_stats results) (enumerate 1 [''a'', ''b'']) #
      test_texts results \<and>
      test_texts results ! 0 = TestText 1 (results ! 0) \<and>
      test_texts results ! 1 = TestText 2 (results ! 1))"
proof -
  let ?run = "runBenchmark (test_env 9 9) [''a'', ''b''] ''m'' ''u'' test_world"
  have h: "?run = (fst ?run, snd ?run)" by simp
  from prompts_in_order [OF h] obtain results where
    lr: "length results = length [''a'', ''b'']" and
    q: "\<forall>i < length [''a'', ''b'']. query (results ! i) = [''a'', ''b''] ! i" and
    f: "files (snd ?run) (report_path (now (test_env 9 9))) =
      files test_world (report_path (now (test_env 9 9))) @
      SummaryText ''m'' (length [''a'', ''b'']) (summary_stats results) (enumerate 1 [''a'', ''b'']) #
      test_texts results" and
    t: "\<forall>i < length [''a'', ''b'']. test_texts results ! i = TestText (i + 1) (results ! i)"
    using test_run_two_completes by blast
  from q have q0: "query (results ! 0) = ''a''" and q1: "query (results ! 1) = ''b''" by simp_all
  from t have t0: "test_texts results ! 0 = TestText 1 (results ! 0)"
    and t1: "test_texts results ! 1 = TestText 2 (results ! 1)" by simp_all
  have tr: "map (req_input \<circ> fst) (trace (snd ?run)) = [''Hello'', ''a'', ''b'']"
    by (simp add: test_run_two_trace)
  show ?thesis
    apply (intro conjI exI [of _ results])
    apply (fact test_run_two_completes) apply (fact tr) apply (fact lr) apply (fact q0)
    apply (fact q1) apply (fact f) apply (fact t0) apply (fact t1)
    done
qed

text \<open>
  Two runs of two prompts that fail: on a server that rejects the call for the second
  prompt, and on a disk that takes two texts only.
\<close>

lemma test_failing_call:
  "fst (runBenchmark (test_env 2 9) [''a'', ''b''] ''m'' ''u'' test_world) = Inl ClientFailure \<and>
   trace (snd (runBenchmark (test_env 2 9) [''a'', ''b''] ''m'' ''u'' test_world)) =
   [(\<lparr> req_input = ''Hello'', req_model = ''m'', req_baseUrl = ''u'' \<rparr>, Inr (test_message 0)),
    (\<lparr> req_input = ''a'', req_model = ''m'', req_baseUrl = ''u'' \<rparr>, Inr (test_message 1)),
    (\<lparr> req_input = ''b'', req_model = ''m'', req_baseUrl = ''u'' \<rparr>, Inl ClientFailure)]"
  by (simp add: runBenchmark_def benchmarkOllamaWithLangchain_def make_result_def
        summaryTemplate_def writeFile_def test_env_def test_world_def test_message_def
        test_usage_def unary_plus_def Let_def)

lemma test_failing_write:
  "fst (runBenchmark (test_env 9 2) [''a'', ''b''] ''m'' ''u'' test_world) = Inl WriteFailure \<and>
   length (files (snd (runBenchmark (test_env 9 2) [''a'', ''b''] ''m'' ''u'' test_world))
     (report_path test_date)) = 2"
  by (simp add: runBenchmark_def benchmarkOllamaWithLangchain_def make_result_def
        summaryTemplate_def writeFile_def test_env_def test_world_def test_message_def
        test_usage_def unary_plus_def Let_def)

text \<open>
  Claim C9. If a call of the prober fails in a run, be it the warm-up call or a measured
  one, the run has written nothing. A run that has written anything made the call for every
  prompt before, and all its calls gave results. A run that has written something and fails all
  the same fails with a rejected \<open>writeFile\<close> in the loop of the per-test appends: the
  file has gained the summary and the texts of the first \<open>k\<close> results, for some \<open>k\<close>
  less than the number of prompts.
\<close>

theorem writes_follow_calls:
  assumes "runBenchmark e tests mdl baseUrl w = (out, w')"
  shows "\<exists>warm calls.
     trace w' = trace w @ warm # calls \<and>
     ((\<exists>c \<in> set (warm # calls). \<exists>err. call_result c = Inl err) \<longrightarrow> files w' = files w) \<and>
     (files w' \<noteq> files w \<longrightarrow>
        map fst calls = map (request_of mdl baseUrl) tests \<and>
        (\<forall>c \<in> set (warm # calls). \<exists>r. call_result c = Inr r)) \<and>
     (files w' \<noteq> files w \<and> out \<noteq> Inr () \<longrightarrow>
        out = Inl WriteFailure \<and>
        (\<exists>results k. k < length tests \<and> map call_result calls = map Inr results \<and>
           files w' (report_path (now e)) =
             files w (report_path (now e)) @
             SummaryText mdl (length tests) (summary_stats results) (enumerate 1 tests) #
             take k (test_texts results)))"
proof -
  from run_cases [OF assms] obtain warm calls where
    tr: "trace w' = trace w @ warm # calls" and
    m: "map fst calls = map (request_of mdl baseUrl) (take (length calls) tests)" and
    d: "(\<exists>err. call_result (last (warm # calls)) = Inl err \<and> out = Inl err \<and> files w' = files w) \<or>
      (\<exists>r0 results. call_result warm = Inr r0 \<and> length calls = length tests \<and>
          map call_result calls = map Inr results \<and>
          (if results = [] then out = Inl (TypeError ''results[0]'') \<and> files w' = files w
           else \<exists>j. files w' = (files w)(report_path (now e) :=
                         files w (report_path (now e)) @ take j (report_texts mdl tests results)) \<and>
                    ((out = Inr () \<and> j = Suc (length results)) \<or>
                     (out = Inl WriteFailure \<and> j \<le> length results))))"
    by blast
  let ?P = "((\<exists>c \<in> set (warm # calls). \<exists>err. call_result c = Inl err) \<longrightarrow> files w' = files w) \<and>
     (files w' \<noteq> files w \<longrightarrow>
        map fst calls = map (request_of mdl baseUrl) tests \<and>
        (\<forall>c \<in> set (warm # calls). \<exists>r. call_result c = Inr r)) \<and>
     (files w' \<noteq> files w \<and> out \<noteq> Inr () \<longrightarrow>
        out = Inl WriteFailure \<and>
        (\<exists>results k. k < length tests \<and> map call_result calls = map Inr results \<and>
           files w' (report_path (now e)) =
             files w (report_path (now e)) @
             SummaryText mdl (length tests) (summary_stats results) (enumerate 1 tests) #
             take k (test_texts results)))"
  from d have p: ?P
  proof
    assume "\<exists>err. call_result (last (warm # calls)) = Inl err \<and> out = Inl err \<and> files w' = files w"
    then have "files w' = files w" by blast
    then show ?P by simp
  next
    assume "\<exists>r0 results. call_result warm = Inr r0 \<and> length calls = length tests \<and>
          map call_result calls = map Inr results \<and>
          (if results = [] then out = Inl (TypeError ''results[0]'') \<and> files w' = files w
           else \<exists>j. files w' = (files w)(report_path (now e) :=
                         files w (report_path (now e)) @ take j (report_texts mdl tests results)) \<and>
                    ((out = Inr () \<and> j = Suc (length results)) \<or>
                     (out = Inl WriteFailure \<and> j \<le> length results)))"
    then obtain r0 results where wr: "call_result warm = Inr r0" and
      lc: "length calls = length tests" and
      cr: "map call_result calls = map Inr results" and
      i: "if results = [] then out = Inl (TypeError ''results[0]'') \<and> files w' = files w
           else \<exists>j. files w' = (files w)(report_path (now e) :=
                         files w (report_path (now e)) @ take j (report_texts mdl tests results)) \<and>
                    ((out = Inr () \<and> j = Suc (length results)) \<or>
                     (out = Inl WriteFailure \<and> j \<le> length results))"
      by blast
    from cr have "length calls = length results" by (metis length_map)
    with lc have lr: "length results = length tests" by simp
    have ans: "\<forall>c \<in> set (warm # calls). \<exists>r. call_result c = Inr r"
      using wr all_calls_answered [OF cr] by auto
    then have p1: "(\<exists>c \<in> set (warm # calls). \<exists>err. call_result c = Inl err) \<longrightarrow> files w' = files w"
      by (metis sum.distinct(1))
    from m lc have m': "map fst calls = map (request_of mdl baseUrl) tests" by simp
    have p3: "files w' \<noteq> files w \<and> out \<noteq> Inr () \<longrightarrow>
        out = Inl WriteFailure \<and>
        (\<exists>results k. k < length tests \<and> map call_result calls = map Inr results \<and>
           files w' (report_path (now e)) =
             files w (report_path (now e)) @
             SummaryText mdl (length tests) (summary_stats results) (enumerate 1 tests) #
             take k (test_texts results))"
    proof
      assume ch: "files w' \<noteq> files w \<and> out \<noteq> Inr ()"
      with i have "results \<noteq> []" by auto
      with i ch obtain j where
        fj: "files w' = (files w)(report_path (now e) :=
                         files w (report_path (now e)) @ take j (report_texts mdl tests results))"
        and ow: "out = Inl WriteFailure" and jl: "j \<le> length results"
        by auto
      from fj ch have "j \<noteq> 0" by auto
      then obtain k where k: "j = Suc k" by (cases j) auto
      with jl lr have kl: "k < length tests" by simp
      have "files w' (report_path (now e)) =
             files w (report_path (now e)) @
             SummaryText mdl (length tests) (summary_stats results) (enumerate 1 tests) #
             take k (test_texts results)"
        using fj k lr by (simp add: report_texts_def)
      with kl cr have "\<exists>results k. k < length tests \<and> map call_result calls = map Inr results \<and>
           files w' (report_path (now e)) =
             files w (report_path (now e)) @
             SummaryText mdl (length tests) (summary_stats results) (enumerate 1 tests) #
             take k (test_texts results)"
        by blast
      with ow show "out = Inl WriteFailure \<and>
        (\<exists>results k. k < length tests \<and> map call_result calls = map Inr results \<and>
           files w' (report_path (now e)) =
             files w (report_path (now e)) @
             SummaryText mdl (length tests) (summary_stats results) (enumerate 1 tests) #
             take k (test_texts results))" ..
    qed
    from p1 m' ans p3 show ?P by blast
  qed
  from tr p show ?thesis by blast
qed

theorem writes_follow_calls_witness:
  "fst (runBenchmark (test_env 2 9) [''a'', ''b''] ''m'' ''u'' test_world) = Inl ClientFailure \<and>
   files (snd (runBenchmark (test_env 2 9) [''a'', ''b''] ''m'' ''u'' test_world)) =
     files test_world \<and>
   fst (runBenchmark (test_env 9 2) [''a'', ''b''] ''m'' ''u'' test_world) = Inl WriteFailure \<and>
   (\<exists>results k. k < length [''a'', ''b''] \<and>
      files (snd (runBenchmark (test_env 9 2) [''a'', ''b''] ''m'' ''u'' test_world))
        (report_path (now (test_env 9 2))) =
      files test_world (report_path (now (test_env 9 2))) @
      SummaryText ''m'' (length [''a'', ''b'']) (summary_stats results) (enumerate 1 [''a'', ''b'']) #
      take k (test_texts results))"
proof -
  let ?run1 = "runBenchmark (test_env 2 9) [''a'', ''b''] ''m'' ''u'' test_world"
  let ?run2 = "runBenchmark (test_env 9 2) [''a'', ''b''] ''m'' ''u'' test_world"
  have h1: "?run1 = (fst ?run1, snd ?run1)" by simp
  have h2: "?run2 = (fst ?run2, snd ?run2)" by simp
  from writes_follow_calls [OF h1] obtain warm calls where
    tr: "trace (snd ?run1) = trace test_world @ warm # calls" and
    i1: "(\<exists>c \<in> set (warm # calls). \<exists>err. call_result c = Inl err) \<longrightarrow>
           files (snd ?run1) = files test_world"
    by blast
  from tr test_failing_call have
    "(\<lparr> req_input = ''b'', req_model = ''m'', req_baseUrl = ''u'' \<rparr>, Inl ClientFailure)
       \<in> set (warm # calls)"
    by (simp add: test_world_def)
  moreover have "call_result
      (\<lparr> req_input = ''b'', req_model = ''m'', req_baseUrl = ''u'' \<rparr>, Inl ClientFailure) =
      Inl ClientFailure"
    by simp
  ultimately have "\<exists>c \<in> set (warm # calls). \<exists>err. call_result c = Inl err" by blast
  with i1 have a: "files (snd ?run1) = files test_world" by blast
  have n: "now (test_env 9 2) = test_date" by (simp add: test_env_def)
  have "files test_world (report_path test_date) = []" by (simp add: test_world_def)
  with test_failing_write have "files (snd ?run2) (report_path test_date) \<noteq>
      files test_world (report_path test_date)"
    by auto
  then have ch: "files (snd ?run2) \<noteq> files test_world" by auto
  have nf: "fst ?run2 \<noteq> Inr ()" using test_failing_write by simp
  from writes_follow_calls [OF h2] ch nf have
    b: "\<exists>results k. k < length [''a'', ''b''] \<and>
      files (snd ?run2) (report_path (now (test_env 9 2))) =
      files test_world (report_path (now (test_env 9 2))) @
      SummaryText ''m'' (length [''a'', ''b'']) (summary_stats results) (enumerate 1 [''a'', ''b'']) #
      take k (test_texts results)"
    by blast
  from test_failing_call test_failing_write a b show ?thesis by blast
qed

section \<open>The empty prompt list\<close>

text \<open>
  The values of lines 95 to 104 for no results: the totals are 0, and each average is 0
  divided by 0.
\<close>

lemma summary_stats_empty:
  "summary_stats [] =
     \<lparr> totalTime = Num 0, totalInputTokens = Num 0, totalOutputTokens = Num 0,
       totalTokens_summary = Num 0, averageTime = NaN, averageInputTokens = NaN,
       averageOutputTokens = NaN, averageTotalTokens = NaN, averageTokensPerSecond = NaN \<rparr>"
  by (simp add: summary_stats_def length_num_def Let_def)

text \<open>
  Claim C6, as the specification states it, has the run of an empty prompt list put
  \<open>NaN\<close> values in the summary instead of signalling an error. On the example server,
  which answers every call, the run of the empty list is rejected with the TypeError of
  \<open>results[0].model\<close>, and the report file stays empty: no summary is written.
\<close>

theorem empty_prompt_list_counterexample:
  "fst (runBenchmark (test_env 9 9) [] ''test-model'' ''http://localhost:11434'' test_world) =
     Inl (TypeError ''results[0]'') \<and>
   files (snd (runBenchmark (test_env 9 9) [] ''test-model'' ''http://localhost:11434''
     test_world)) (report_path test_date) = []"
  by (simp add: runBenchmark_def benchmarkOllamaWithLangchain_def make_result_def
        summaryTemplate_def test_env_def test_world_def test_message_def
        test_usage_def unary_plus_def Let_def)

text \<open>
  Claim C6, amended. Given an empty prompt list, the run does not fail up front: it makes
  the warm-up call and no other call, and the averages of lines 99 to 104 are \<open>NaN\<close>, the
  divisions of 0 by 0 signalling nothing. But the run never completes and writes nothing: if
  the warm-up call fails the run fails with its error, and otherwise building the summary reads
  \<open>results[0].model\<close> in an empty array, which throws a TypeError.
\<close>

theorem empty_prompt_list:
  assumes "runBenchmark e [] mdl baseUrl w = (out, w')"
  shows "(\<exists>warm. trace w' = trace w @ [warm] \<and> fst warm = request_of mdl baseUrl ''Hello'' \<and>
            out = (case call_result warm of
                     Inl err \<Rightarrow> Inl err
                   | Inr r \<Rightarrow> Inl (TypeError ''results[0]''))) \<and>
         out \<noteq> Inr () \<and> files w' = files w \<and>
         averageTime (summary_stats []) = NaN \<and>
         averageInputTokens (summary_stats []) = NaN \<and>
         averageOutputTokens (summary_stats []) = NaN \<and>
         averageTotalTokens (summary_stats []) = NaN \<and>
         averageTokensPerSecond (summary_stats []) = NaN"
proof -
  from run_cases [OF assms] obtain warm calls where
    tr: "trace w' = trace w @ warm # calls" and hw: "fst warm = request_of mdl baseUrl ''Hello''" and
    l: "length calls \<le> length ([] :: string list)" and
    d: "(\<exists>err. call_result (last (warm # calls)) = Inl err \<and> out = Inl err \<and> files w' = files w) \<or>
      (\<exists>r0 results. call_result warm = Inr r0 \<and> length calls = length ([] :: string list) \<and>
          map call_result calls = map Inr results \<and>
          (if results = [] then out = Inl (TypeError ''results[0]'') \<and> files w' = files w
           else \<exists>j. files w' = (files w)(report_path (now e) :=
                         files w (report_path (now e)) @ take j (report_texts mdl [] results)) \<and>
                    ((out = Inr () \<and> j = Suc (length results)) \<or>
                     (out = Inl WriteFailure \<and> j \<le> length results))))"
    by blast
  from l have c: "calls = []" by simp
  from d have o: "out = (case call_result warm of
                     Inl err \<Rightarrow> Inl err
                   | Inr r \<Rightarrow> Inl (TypeError ''results[0]'')) \<and> files w' = files w"
    unfolding c by auto
  then have "out \<noteq> Inr ()" by (cases "call_result warm") auto
  moreover have "\<exists>warm. trace w' = trace w @ [warm] \<and> fst warm = request_of mdl baseUrl ''Hello'' \<and>
            out = (case call_result warm of
                     Inl err \<Rightarrow> Inl err
                   | Inr r \<Rightarrow> Inl (TypeError ''results[0]''))"
    using tr hw o c by blast
  ultimately show ?thesis using o by (simp add: summary_stats_empty)
qed

theorem empty_prompt_list_witness:
  "fst (runBenchmark (test_env 9 9) [] ''test-model'' ''http://localhost:11434'' test_world) \<noteq>
     Inr () \<and>
   files (snd (runBenchmark (test_env 9 9) [] ''test-model'' ''http://localhost:11434''
     test_world)) = files test_world \<and>
   (\<exists>warm. trace (snd (runBenchmark (test_env 9 9) [] ''test-model'' ''http://localhost:11434''
        test_world)) = trace test_world @ [warm] \<and>
      fst warm = request_of ''test-model'' ''http://localhost:11434'' ''Hello'') \<and>
   averageTime (summary_stats []) = NaN"
proof -
  let ?run = "runBenchmark (test_env 9 9) [] ''test-model'' ''http://localhost:11434'' test_world"
  have h: "?run = (fst ?run, snd ?run)" by simp
  from empty_prompt_list [OF h] show ?thesis by blast
qed

end
